theory Spec2Isabelle
  imports Main "HOL-Library.Word" "HOL-Library.Multiset"
begin

section \<open>The payload IR\<close>

text \<open>
  The transform operations of \<^verbatim>\<open>CommonExtensions.cpp\<close> work on the host compiler's
  in-memory IR: operations with operands, results, attributes and nested regions, regions
  made of blocks, blocks holding an ordered list of operations. A pointer to an operation
  is modelled by the operation's identifier, a pointer to a block by the block's
  identifier, and an SSA value is either a result of an operation or an argument of a
  block. Source locations are left out.
\<close>

type_synonym op_id = nat
type_synonym block_id = nat

datatype val = OpResult op_id nat | BlockArgument block_id nat

text \<open>
  A shape is a list of 64-bit extents in which the host's sentinel \<open>ShapedType::kDynamic\<close>
  marks a dimension whose extent is only known at run time.
\<close>

definition kDynamic :: int where
  "kDynamic = - (2 ^ 63)"

definition isDynamic :: "int \<Rightarrow> bool" where
  "isDynamic dimSize = (dimSize = kDynamic)"

type_synonym elem_type = nat

datatype memref_type =
  MemRef (getShape: "int list") (getElementType: elem_type) (getLayout: nat)
    (getMemorySpace: nat)

datatype mlir_type = MemRefType memref_type | OtherType nat

text \<open>\<open>MemRefType::get(shape, elementType)\<close>: the identity layout in the default memory space.\<close>

definition MemRefType_get :: "int list \<Rightarrow> elem_type \<Rightarrow> memref_type" where
  "MemRefType_get shp elt = MemRef shp elt 0 0"

definition getRank :: "memref_type \<Rightarrow> nat" where
  "getRank t = length (getShape t)"

text \<open>An \<open>OpFoldResult\<close> is an integer attribute or an SSA value.\<close>

datatype ofr = AttrOFR int | ValueOFR val

datatype trait = IsIsolatedFromAbove | IsTerminator

text \<open>
  The operations the code distinguishes with \<open>isa\<close>, \<open>dyn_cast\<close> and
  \<open>TypeSwitch\<close>, each with the attributes the code reads:
  \<^item> \<open>AllocOp\<close>, \<open>AllocaOp\<close>: the optional alignment, and how many of the operands are
    dynamic sizes (the remaining operands are symbol operands);
  \<^item> \<open>SubViewOp\<close>, \<open>ExtractSliceOp\<close>, \<open>ParallelInsertSliceOp\<close>: the static offsets, sizes
    and strides, where \<open>kDynamic\<close> stands for an entry given by an operand;
  \<^item> \<open>LinalgOp\<close>: any operation implementing the structured-operation interface, with
    the number of its input operands (its remaining operands are the outputs);
  \<^item> \<open>ForallOp\<close>: the number of operands that precede the outputs, and the rank (the
    number of induction variables among the arguments of the body);
  \<^item> \<open>OtherOp\<close>: any other operation, with a name tag and its traits.
\<close>

datatype op_kind =
    ModuleOp
  | FuncOp
  | ReturnOp
  | AllocOp "nat option" nat
  | AllocaOp "nat option" nat
  | DeallocOp
  | StoreOp
  | SubViewOp "int list" "int list" "int list"
  | LinalgOp nat
  | ExtractSliceOp "int list" "int list" "int list"
  | ParallelInsertSliceOp "int list" "int list" "int list"
  | ForallOp nat nat
  | InParallelOp
  | AffineForOp
  | ScfForOp
  | OtherOp nat "trait list"

datatype operation =
  Operation (opId: op_id) (opKind: op_kind) (opOperands: "val list")
    (opResultTypes: "mlir_type list") (opRegions: "block list list")
and block =
  Block (blockId: block_id) (blockArgTypes: "mlir_type list") (blockOps: "operation list")

definition getNumResults :: "operation \<Rightarrow> nat" where
  "getNumResults op = length (opResultTypes op)"

definition getResult :: "operation \<Rightarrow> nat \<Rightarrow> val" where
  "getResult op k = OpResult (opId op) k"

fun hasTrait :: "trait \<Rightarrow> operation \<Rightarrow> bool" where
  "hasTrait IsIsolatedFromAbove op =
     (case opKind op of
        ModuleOp \<Rightarrow> True
      | FuncOp \<Rightarrow> True
      | OtherOp _ ts \<Rightarrow> IsIsolatedFromAbove \<in> set ts
      | _ \<Rightarrow> False)"
| "hasTrait IsTerminator op =
     (case opKind op of
        ReturnOp \<Rightarrow> True
      | InParallelOp \<Rightarrow> True
      | OtherOp _ ts \<Rightarrow> IsTerminator \<in> set ts
      | _ \<Rightarrow> False)"

text \<open>
  \<open>Operation::walk\<close> in its default post-order: the operations nested in the regions
  first, region by region and block by block, then the operation itself.
\<close>

fun walk :: "operation \<Rightarrow> operation list"
  and walkBlock :: "block \<Rightarrow> operation list" where
  "walk (Operation i k os ts rs) =
     concat (map (\<lambda>r. concat (map walkBlock r)) rs) @ [Operation i k os ts rs]"
| "walkBlock (Block b as ops) = concat (map walk ops)"

text \<open>All blocks nested under an operation.\<close>

fun blocksOf :: "operation \<Rightarrow> block list"
  and blocksOfBlock :: "block \<Rightarrow> block list" where
  "blocksOf (Operation i k os ts rs) = concat (map (\<lambda>r. concat (map blocksOfBlock r)) rs)"
| "blocksOfBlock (Block b as ops) = Block b as ops # concat (map blocksOf ops)"

text \<open>Dereferencing an operation pointer and \<open>Operation::getBlock\<close>, under a root.\<close>

definition findOp :: "operation \<Rightarrow> op_id \<Rightarrow> operation option" where
  "findOp root i = find (\<lambda>op. opId op = i) (walk root)"

definition getBlock :: "operation \<Rightarrow> op_id \<Rightarrow> block_id option" where
  "getBlock root i =
     map_option blockId (find (\<lambda>b. i \<in> set (map opId (blockOps b))) (blocksOf root))"

text \<open>\<open>Value::getDefiningOp\<close>: null for a block argument.\<close>

fun getDefiningOp :: "operation \<Rightarrow> val \<Rightarrow> operation option" where
  "getDefiningOp root (OpResult i k) = findOp root i"
| "getDefiningOp root (BlockArgument b k) = None"

text \<open>
  The uses of a value under a root, as pairs of the owner and the operand number, and
  the owners alone (\<open>getUsers\<close>: one entry per use). The host keeps them in a use list
  whose order is not the order of the walk; the code below only counts them, tests all of
  them, or collects a set of them.
\<close>

definition usesIn :: "operation \<Rightarrow> val \<Rightarrow> (operation \<times> nat) list" where
  "usesIn root v =
     concat (map (\<lambda>op. map (\<lambda>k. (op, k))
       (filter (\<lambda>k. opOperands op ! k = v) [0 ..< length (opOperands op)])) (walk root))"

definition getUses :: "operation \<Rightarrow> operation \<Rightarrow> (operation \<times> nat) list" where
  "getUses root op =
     concat (map (\<lambda>k. usesIn root (getResult op k)) [0 ..< getNumResults op])"

definition getUsers :: "operation \<Rightarrow> operation \<Rightarrow> operation list" where
  "getUsers root op = map fst (getUses root op)"

text \<open>
  The ways the code edits the IR: replacing every use of a value, assigning one operand
  of an operation, erasing an operation, and inserting a new operation at the start of a
  block or right before an operation. \<open>mapOperandLists\<close> rewrites the operand list of
  every operation, \<open>mapBlocks\<close> the operation list of every nested block.
\<close>

fun mapOperandLists :: "(op_id \<Rightarrow> val list \<Rightarrow> val list) \<Rightarrow> operation \<Rightarrow> operation"
  and mapOperandListsB :: "(op_id \<Rightarrow> val list \<Rightarrow> val list) \<Rightarrow> block \<Rightarrow> block" where
  "mapOperandLists g (Operation i k os ts rs) =
     Operation i k (g i os) ts (map (map (mapOperandListsB g)) rs)"
| "mapOperandListsB g (Block b as ops) = Block b as (map (mapOperandLists g) ops)"

fun mapBlocks :: "(block_id \<Rightarrow> operation list \<Rightarrow> operation list) \<Rightarrow> operation \<Rightarrow> operation"
  and mapBlocksB :: "(block_id \<Rightarrow> operation list \<Rightarrow> operation list) \<Rightarrow> block \<Rightarrow> block" where
  "mapBlocks h (Operation i k os ts rs) = Operation i k os ts (map (map (mapBlocksB h)) rs)"
| "mapBlocksB h (Block b as ops) = Block b as (h b (map (mapBlocks h) ops))"

definition replaceAllUsesWith :: "val \<Rightarrow> val \<Rightarrow> operation \<Rightarrow> operation" where
  "replaceAllUsesWith old new root =
     mapOperandLists (\<lambda>i. map (\<lambda>v. if v = old then new else v)) root"

definition setOperand :: "op_id \<Rightarrow> nat \<Rightarrow> val \<Rightarrow> operation \<Rightarrow> operation" where
  "setOperand i k v root = mapOperandLists (\<lambda>j os. if j = i then os[k := v] else os) root"

definition eraseOp :: "op_id \<Rightarrow> operation \<Rightarrow> operation" where
  "eraseOp i root = mapBlocks (\<lambda>b ops. filter (\<lambda>op. opId op \<noteq> i) ops) root"

definition insertAtStart :: "block_id \<Rightarrow> operation \<Rightarrow> operation \<Rightarrow> operation" where
  "insertAtStart b new root = mapBlocks (\<lambda>b' ops. if b' = b then new # ops else ops) root"

fun insertBeforeInList :: "op_id \<Rightarrow> operation \<Rightarrow> operation list \<Rightarrow> operation list" where
  "insertBeforeInList i new [] = []"
| "insertBeforeInList i new (op # ops) =
     (if opId op = i then new # op # ops else op # insertBeforeInList i new ops)"

definition insertBefore :: "op_id \<Rightarrow> operation \<Rightarrow> operation \<Rightarrow> operation" where
  "insertBefore i new root = mapBlocks (\<lambda>b ops. insertBeforeInList i new ops) root"

text \<open>A new operation gets an identifier that no operation under the root has.\<close>

definition freshOpId :: "operation \<Rightarrow> op_id" where
  "freshOpId root = Suc (fold max (map opId (walk root)) 0)"

text \<open>
  An assertion of the host that does not hold (the first block of an empty region, the
  terminator of a block that has none, an index past the end of a range, a cast to the
  wrong operation or type) ends the run; the model returns \<open>AssertionFailure\<close> there.
\<close>

datatype 'a outcome = AssertionFailure | Returned 'a

definition elementAt :: "'a list \<Rightarrow> nat \<Rightarrow> 'a outcome" where
  "elementAt xs k = (if k < length xs then Returned (xs ! k) else AssertionFailure)"

text \<open>The first block of the first region of an operation.\<close>

definition frontBlock :: "operation \<Rightarrow> block outcome" where
  "frontBlock op =
     (case opRegions op of
        (b # bs) # rs \<Rightarrow> Returned b
      | _ \<Rightarrow> AssertionFailure)"

definition getTerminator :: "block \<Rightarrow> operation outcome" where
  "getTerminator b =
     (case blockOps b of
        [] \<Rightarrow> AssertionFailure
      | op # ops \<Rightarrow>
          if hasTrait IsTerminator (last (op # ops)) then Returned (last (op # ops))
          else AssertionFailure)"

text \<open>
  The mixed static and dynamic entries of an offset, size or stride list: an entry the
  static list marks dynamic is the next dynamic operand.
\<close>

fun getMixedValues :: "int list \<Rightarrow> val list \<Rightarrow> ofr list outcome" where
  "getMixedValues [] dynamicValues = Returned []"
| "getMixedValues (s # staticValues) dynamicValues =
     (if isDynamic s then
        (case dynamicValues of
           [] \<Rightarrow> AssertionFailure
         | v # vs \<Rightarrow>
             (case getMixedValues staticValues vs of
                AssertionFailure \<Rightarrow> AssertionFailure
              | Returned rest \<Rightarrow> Returned (ValueOFR v # rest)))
      else
        (case getMixedValues staticValues dynamicValues of
           AssertionFailure \<Rightarrow> AssertionFailure
         | Returned rest \<Rightarrow> Returned (AttrOFR s # rest)))"

definition numDynamic :: "int list \<Rightarrow> nat" where
  "numDynamic staticValues = length (filter isDynamic staticValues)"

section \<open>The fusion legality gate\<close>

text \<open>
  \<open>llvm::SetVector\<close>: a set that remembers the order of insertion, here the list of its
  elements. \<open>insert\<close> appends an element that is not there yet, the range \<open>insert\<close>
  does so for each element in turn, \<open>remove\<close> takes the element out.
\<close>

definition sv_insert :: "'a \<Rightarrow> 'a list \<Rightarrow> 'a list" where
  "sv_insert x s = (if x \<in> set s then s else s @ [x])"

definition sv_insert_range :: "'a list \<Rightarrow> 'a list \<Rightarrow> 'a list" where
  "sv_insert_range xs s = fold sv_insert xs s"

definition sv_remove :: "'a \<Rightarrow> 'a list \<Rightarrow> 'a list" where
  "sv_remove x s = remove1 x s"

text \<open>
  \<open>getDpsInputOperands\<close> of a structured operation: the operands that are not outputs.
  The inputs of a structured operation come first.
\<close>

definition getDpsInputOperands :: "nat \<Rightarrow> operation \<Rightarrow> val list" where
  "getDpsInputOperands numInputs op = take numInputs (opOperands op)"

text \<open>\<open>addOperands\<close>: a null operation adds nothing.\<close>

fun addOperands :: "operation option \<Rightarrow> val list \<Rightarrow> val list" where
  "addOperands None operandSet = operandSet"
| "addOperands (Some op) operandSet =
     (case opKind op of
        LinalgOp numInputs \<Rightarrow> sv_insert_range (getDpsInputOperands numInputs op) operandSet
      | _ \<Rightarrow> sv_insert_range (opOperands op) operandSet)"

text \<open>An \<open>OpOperand\<close>: the operation that owns the operand, and the value it holds.\<close>

datatype opOperand = OpOperand (getOwner: operation) (getValue: val)

text \<open>
  \<open>setFusedOpOperandLimit<limit>\<close>. The limit is an \<open>int\<close> template argument (32 bits)
  and the size of the set is a \<open>size_t\<close> (64 bits), so the comparison
  \<open>fusedOpOperands.size() <= limit\<close> converts the limit to \<open>size_t\<close> first: a negative
  limit becomes a number above every size.
\<close>

definition int_to_size_t :: "32 word \<Rightarrow> nat" where
  "int_to_size_t limit = unat (scast limit :: 64 word)"

definition setFusedOpOperandLimit :: "32 word \<Rightarrow> operation \<Rightarrow> opOperand \<Rightarrow> bool" where
  "setFusedOpOperandLimit limit root fusedOperand =
     (case getDefiningOp root (getValue fusedOperand) of
        None \<Rightarrow> False
      | Some producer \<Rightarrow>
          (let consumer = getOwner fusedOperand;
               fusedOpOperands0 = [] in
           if getNumResults producer \<noteq> 1 then False
           else
             (let fusedOpOperands1 = addOperands (Some consumer) fusedOpOperands0;
                  fusedOpOperands2 = sv_remove (getResult producer 0) fusedOpOperands1;
                  fusedOpOperands3 = addOperands (Some producer) fusedOpOperands2
              in length fusedOpOperands3 \<le> int_to_size_t limit)))"

text \<open>
  The operands \<open>addOperands\<close> looks at: the inputs of a structured operation, all the
  operands of any other operation.
\<close>

definition consideredOperands :: "operation \<Rightarrow> val list" where
  "consideredOperands op =
     (case opKind op of
        LinalgOp numInputs \<Rightarrow> getDpsInputOperands numInputs op
      | _ \<Rightarrow> opOperands op)"

text \<open>
  What the gate can see of a candidate: whether the fused value has a defining operation
  and, if so, its number of results, its first result and its considered operands; and
  the considered operands of the consumer.
\<close>

definition fusionEdgeStructure ::
  "operation \<Rightarrow> opOperand \<Rightarrow> (nat \<times> val \<times> val list) option \<times> val list" where
  "fusionEdgeStructure root fusedOperand =
     (map_option (\<lambda>producer.
         (getNumResults producer, getResult producer 0, consideredOperands producer))
        (getDefiningOp root (getValue fusedOperand)),
      consideredOperands (getOwner fusedOperand))"

text \<open>
  A small payload to evaluate the gate on: a function whose body holds a structured
  producer (operation 1) with the given inputs and one output, a structured consumer
  (operation 2) with the given inputs and outputs, and a return.
\<close>

definition gateProducer :: "val list \<Rightarrow> operation" where
  "gateProducer ins =
     Operation 1 (LinalgOp (length ins)) (ins @ [BlockArgument 0 0]) [OtherType 0] []"

definition gateConsumer :: "val list \<Rightarrow> val list \<Rightarrow> operation" where
  "gateConsumer ins outs =
     Operation 2 (LinalgOp (length ins)) (ins @ outs) [OtherType 0] []"

definition gateFunc :: "operation \<Rightarrow> operation \<Rightarrow> operation" where
  "gateFunc producer consumer =
     Operation 0 FuncOp [] []
       [[Block 0 (replicate 8 (OtherType 0))
          [producer, consumer, Operation 3 ReturnOp [OpResult 2 0] [] []]]]"

section \<open>The host compiler's services\<close>

text \<open>
  The rewrite driver, loop-invariant code motion, the promotion of single-iteration
  loops, the upper-bound analysis and the type inference of sub-views belong to the host
  compiler. The code calls them; the model takes them as parameters, each a function of
  the payload it reads or rewrites.
\<close>

text \<open>
  The control function of the swapping pattern is a lambda that holds a reference to the
  parameter \<open>swapPaddingElideCornerCase\<close> of \<open>addSwappingPatterns\<close>. The driver calls it
  after \<open>addSwappingPatterns\<close> has returned, when the parameter is gone: what it answers
  is not determined by the program. The model records the lambda with the value the
  parameter had and leaves its answer to the driver of the host.
\<close>

datatype controlFn = ReadsParameterAfterReturn bool

text \<open>The rule groups that \<open>ApplyPatternsOp\<close> can put into a \<open>RewritePatternSet\<close>.\<close>

datatype pattern =
    GenerateToConstant
  | FoldReshapeOpsByCollapsingPatterns
  | FoldReshapeOpsByExpansionPatterns
  | DataLayoutPropagationPatterns
  | AllRegisteredCanonicalizationPatterns
  | EraseUnnecessaryInputsPatterns
  | ExpandStridedMetadataPatterns
  | FoldMemRefAliasOpPatterns
  | ReassociativeReshapeFoldingPatterns
  | FoldTensorEmptyExtract
  | ElementwiseOpsFusionPatterns "32 word"
  | VectorTransferPermutationMapLoweringPatterns
  | VectorMaskLoweringPatternsForSideEffectingOps
  | CastAwayVectorLeadingOneDimPatterns
  | ExtractSliceOfPadTensorSwapPattern controlFn
  | LinalgTilingCanonicalizationPatterns
  | SCFForLoopCanonicalizationPatterns

record host =
  applyOpPatternsAndFold :: "op_id list \<Rightarrow> pattern list \<Rightarrow> operation \<Rightarrow> bool \<times> operation"
  isLoopLike :: "operation \<Rightarrow> bool"
  moveLoopInvariantCode :: "op_id \<Rightarrow> operation \<Rightarrow> operation"
  promoteIfSingleIteration :: "op_id \<Rightarrow> operation \<Rightarrow> operation"
  getConstantUpperBoundForIndex :: "operation \<Rightarrow> val \<Rightarrow> int option"
  inferSubViewResultType ::
    "memref_type \<Rightarrow> int list \<Rightarrow> int list \<Rightarrow> int list \<Rightarrow> mlir_type"

text \<open>
  \<open>DiagnosedSilenceableFailure\<close>: success, or a failure of one of the two tiers, reported
  on an operation (a null pointer is \<open>None\<close>) with a message.
\<close>

datatype diagnosed =
    DiagSuccess
  | DefiniteFailure "op_id option" string
  | SilenceableFailure "op_id option" string

section \<open>ApplyPatternsOp\<close>

text \<open>The unit attributes of the transform operation, one per accessor.\<close>

record applyPatternsOp =
  getAdditionalPatterns :: bool
  getBubbleCollapse :: bool
  getBubbleExpand :: bool
  getBubblePackUnPack :: bool
  getCanonicalization :: bool
  getCse :: bool
  getEraseUnnecessaryTensorOperands :: bool
  getExpandMemrefStridedMetadata :: bool
  getFoldMemrefAliases :: bool
  getFoldReassociativeReshapes :: bool
  getFoldTensorEmptyExtract :: bool
  getLicm :: bool
  getLinalgElementwiseGreedyFusion :: bool
  getLowerTransferOpPermutations :: bool
  getLowerVectorMasks :: bool
  getRankReducingLinalg :: bool
  getRankReducingLinalgViaReshapes :: bool
  getRankReducingVector :: bool
  getSwapPaddingElideConditional :: bool
  getSwappingPatterns :: bool
  getTilingCanonicalization :: bool
  getUnrollVectorsGpuMmaSync :: bool
  getUnrollVectorsGpuWmma :: bool

text \<open>
  The rule set, assembled in the order of the source. The branches of the rank-reducing
  linalg toggles and of the two vector-unrolling toggles are commented out there and add
  nothing.
\<close>

definition addSwappingPatterns :: "bool \<Rightarrow> pattern list" where
  "addSwappingPatterns swapPaddingElideCornerCase =
     [ExtractSliceOfPadTensorSwapPattern (ReadsParameterAfterReturn swapPaddingElideCornerCase)]"

definition addTilingCanonicalizationPatterns :: "pattern list" where
  "addTilingCanonicalizationPatterns =
     [LinalgTilingCanonicalizationPatterns, SCFForLoopCanonicalizationPatterns]"

definition assemblePatterns :: "applyPatternsOp \<Rightarrow> pattern list" where
  "assemblePatterns tr =
     (if getAdditionalPatterns tr then [GenerateToConstant] else [])
     @ (if getBubbleCollapse tr then [FoldReshapeOpsByCollapsingPatterns] else [])
     @ (if getBubbleExpand tr then [FoldReshapeOpsByExpansionPatterns] else [])
     @ (if getBubblePackUnPack tr then [DataLayoutPropagationPatterns] else [])
     @ (if getCanonicalization tr then [AllRegisteredCanonicalizationPatterns] else [])
     @ (if getEraseUnnecessaryTensorOperands tr then [EraseUnnecessaryInputsPatterns] else [])
     @ (if getExpandMemrefStridedMetadata tr then [ExpandStridedMetadataPatterns] else [])
     @ (if getFoldMemrefAliases tr then [FoldMemRefAliasOpPatterns] else [])
     @ (if getFoldReassociativeReshapes tr then [ReassociativeReshapeFoldingPatterns] else [])
     @ (if getFoldTensorEmptyExtract tr then [FoldTensorEmptyExtract] else [])
     @ (if getLinalgElementwiseGreedyFusion tr then [ElementwiseOpsFusionPatterns 3] else [])
     @ (if getLowerTransferOpPermutations tr
        then [VectorTransferPermutationMapLoweringPatterns] else [])
     @ (if getLowerVectorMasks tr then [VectorMaskLoweringPatternsForSideEffectingOps] else [])
     @ (if getRankReducingVector tr then [CastAwayVectorLeadingOneDimPatterns] else [])
     @ (if getSwappingPatterns tr
        then addSwappingPatterns (getSwapPaddingElideConditional tr) else [])
     @ (if getTilingCanonicalization tr then addTilingCanonicalizationPatterns else [])"

text \<open>
  A walk whose callback may interrupt it. The callback sees the operation and the state
  it captured by reference.
\<close>

datatype walkResult = WalkAdvance | WalkInterrupt

fun walkInterruptible ::
  "(operation \<Rightarrow> 's \<Rightarrow> walkResult \<times> 's) \<Rightarrow> operation list \<Rightarrow> 's \<Rightarrow> walkResult \<times> 's" where
  "walkInterruptible callback [] s = (WalkAdvance, s)"
| "walkInterruptible callback (op # ops) s =
     (case callback op s of
        (WalkInterrupt, s') \<Rightarrow> (WalkInterrupt, s')
      | (WalkAdvance, s') \<Rightarrow> walkInterruptible callback ops s')"

definition isFuncOp :: "operation \<Rightarrow> bool" where
  "isFuncOp op = (opKind op = FuncOp)"

definition isForLoop :: "operation \<Rightarrow> bool" where
  "isForLoop op = (opKind op = AffineForOp \<or> opKind op = ScfForOp)"

text \<open>
  The operations handed to the driver: every operation nested in the target, not the
  target itself.
\<close>

definition nestedOps :: "operation \<Rightarrow> op_id list" where
  "nestedOps target = map opId (filter (\<lambda>nestedOp. opId nestedOp \<noteq> opId target) (walk target))"

text \<open>
  The \<open>licm\<close> phase. A walk that rewrites the payload visits the operations that were
  there when it started; each visit works on the payload as the visits before left it,
  and an operation that is no longer there is passed over. For every nested function:
  loop-invariant code motion on every loop-like operation, then the promotion of every
  \<open>affine.for\<close> and \<open>scf.for\<close>, whose result is discarded.
\<close>

definition licmInFunc :: "host \<Rightarrow> op_id \<Rightarrow> operation \<Rightarrow> operation" where
  "licmInFunc h funcId payload =
     (case findOp payload funcId of
        None \<Rightarrow> payload
      | Some funcOp \<Rightarrow>
          (let payload1 =
                 fold (moveLoopInvariantCode h)
                   (map opId (filter (isLoopLike h) (walk funcOp))) payload
           in case findOp payload1 funcId of
                None \<Rightarrow> payload1
              | Some funcOp1 \<Rightarrow>
                  fold (promoteIfSingleIteration h)
                    (map opId (filter isForLoop (walk funcOp1))) payload1))"

definition licmPhase :: "host \<Rightarrow> operation \<Rightarrow> operation" where
  "licmPhase h target =
     fold (licmInFunc h) (map opId (filter isFuncOp (walk target))) target"

text \<open>
  The \<open>cse\<close> phase: the walk over the nested functions. The callback records the function
  and advances; the elimination and its two interrupting exits are commented out in the
  source.
\<close>

definition cseWalk :: "operation \<Rightarrow> walkResult \<times> op_id option" where
  "cseWalk target =
     walkInterruptible (\<lambda>funcOp lastFuncVisited. (WalkAdvance, Some (opId funcOp)))
       (filter isFuncOp (walk target)) None"

text \<open>
  \<open>ApplyPatternsOp::applyToOne\<close> returns the diagnostic, the results pushed and the
  payload under the target as the call leaves it.
\<close>

definition ApplyPatternsOp_applyToOne ::
  "host \<Rightarrow> applyPatternsOp \<Rightarrow> operation \<Rightarrow> diagnosed \<times> op_id list \<times> operation" where
  "ApplyPatternsOp_applyToOne h tr target =
     (if \<not> hasTrait IsIsolatedFromAbove target then
        (DefiniteFailure (Some (opId target))
           ''applies only to isolated-from-above targets because it needs to apply patterns greedily'',
         [], target)
      else
        (let patterns = assemblePatterns tr;
             ops = nestedOps target;
             (result, payload1) = applyOpPatternsAndFold h ops patterns target
         in if \<not> result then
              (DefiniteFailure (Some (opId target)) ''greedy patterns failed'', [], payload1)
            else
              (let payload2 = (if getLicm tr then licmPhase h payload1 else payload1)
               in if getCse tr then
                    (let (walkRes, lastFuncVisited) = cseWalk payload2
                     in if walkRes = WalkInterrupt then
                          (if \<not> result then
                             (DefiniteFailure lastFuncVisited ''greedy patterns failed'',
                              [], payload2)
                           else (DiagSuccess, [opId target], payload2))
                        else (DiagSuccess, [opId target], payload2))
                  else (DiagSuccess, [opId target], payload2))))"

text \<open>A host at rest, which rewrites nothing, and a configuration with nothing set.\<close>

definition restingHost :: host where
  "restingHost =
     \<lparr> applyOpPatternsAndFold = (\<lambda>ops patterns payload. (True, payload)),
       isLoopLike = isForLoop,
       moveLoopInvariantCode = (\<lambda>loop payload. payload),
       promoteIfSingleIteration = (\<lambda>loop payload. payload),
       getConstantUpperBoundForIndex = (\<lambda>payload v. None),
       inferSubViewResultType = (\<lambda>source offsets sizes strides. MemRefType source) \<rparr>"

definition noPatterns :: applyPatternsOp where
  "noPatterns =
     \<lparr> getAdditionalPatterns = False, getBubbleCollapse = False, getBubbleExpand = False,
       getBubblePackUnPack = False, getCanonicalization = False, getCse = False,
       getEraseUnnecessaryTensorOperands = False, getExpandMemrefStridedMetadata = False,
       getFoldMemrefAliases = False, getFoldReassociativeReshapes = False,
       getFoldTensorEmptyExtract = False, getLicm = False,
       getLinalgElementwiseGreedyFusion = False, getLowerTransferOpPermutations = False,
       getLowerVectorMasks = False, getRankReducingLinalg = False,
       getRankReducingLinalgViaReshapes = False, getRankReducingVector = False,
       getSwapPaddingElideConditional = False, getSwappingPatterns = False,
       getTilingCanonicalization = False, getUnrollVectorsGpuMmaSync = False,
       getUnrollVectorsGpuWmma = False \<rparr>"

text \<open>A loop nest to try the operation on: a function with an \<open>scf.for\<close> around a store.\<close>

definition loopFunc :: operation where
  "loopFunc =
     Operation 0 FuncOp [] []
       [[Block 0 [MemRefType (MemRef [4] 0 0 0)]
          [Operation 1 ScfForOp [] []
             [[Block 1 [OtherType 0]
                 [Operation 2 StoreOp [BlockArgument 1 0, BlockArgument 0 0] [] [],
                  Operation 3 (OtherOp 0 [IsTerminator]) [] [] []]]],
           Operation 4 ReturnOp [] [] []]]]"


text \<open>
  A host that rewrites. The one rule of its driver erases an operation marked dead
  (\<open>OtherOp 7\<close> without traits) unless it stands inside a loop, whatever the rule set; its
  promotion takes every \<open>scf.for\<close> and \<open>affine.for\<close> for a loop of one iteration and puts
  the body, without its terminator, in the place of the loop; it moves no code.
\<close>

fun foldDead :: "operation \<Rightarrow> operation"
  and foldDeadB :: "block \<Rightarrow> block" where
  "foldDead (Operation i k os ts rs) =
     (if k = ScfForOp \<or> k = AffineForOp then Operation i k os ts rs
      else Operation i k os ts (map (map foldDeadB) rs))"
| "foldDeadB (Block b as ops) =
     Block b as (map foldDead (filter (\<lambda>op. opKind op \<noteq> OtherOp 7 []) ops))"





section \<open>ShareForallOperandsOp\<close>

text \<open>
  The accessors of \<open>scf.forall\<close>: the outputs are the operands after the control
  operands, the output block arguments are the arguments of the body after the
  induction variables, and the yielding operations are the operations in the region of
  the terminator of the body.
\<close>

definition getOutputs :: "operation \<Rightarrow> val list outcome" where
  "getOutputs forallOp =
     (case opKind forallOp of
        ForallOp numControl rank \<Rightarrow> Returned (drop numControl (opOperands forallOp))
      | _ \<Rightarrow> AssertionFailure)"

definition getOutputBlockArguments :: "operation \<Rightarrow> val list outcome" where
  "getOutputBlockArguments forallOp =
     (case opKind forallOp of
        ForallOp numControl rank \<Rightarrow>
          (case frontBlock forallOp of
             AssertionFailure \<Rightarrow> AssertionFailure
           | Returned body \<Rightarrow>
               Returned (map (BlockArgument (blockId body))
                 [rank ..< length (blockArgTypes body)]))
      | _ \<Rightarrow> AssertionFailure)"

definition getYieldingOps :: "operation \<Rightarrow> operation list outcome" where
  "getYieldingOps forallOp =
     (case frontBlock forallOp of
        AssertionFailure \<Rightarrow> AssertionFailure
      | Returned body \<Rightarrow>
          (case getTerminator body of
             AssertionFailure \<Rightarrow> AssertionFailure
           | Returned terminator \<Rightarrow>
               if opKind terminator = InParallelOp then
                 (case frontBlock terminator of
                    AssertionFailure \<Rightarrow> AssertionFailure
                  | Returned b \<Rightarrow> Returned (blockOps b))
               else AssertionFailure))"

text \<open>
  The mixed offsets, sizes and strides of a slice operation whose index operands start at
  position \<open>start\<close> of its operands: 1 for \<open>tensor.extract_slice\<close> (after the source), 2 for
  \<open>tensor.parallel_insert_slice\<close> (after the source and the destination). The dynamic
  offsets come first, then the dynamic sizes, then the dynamic strides.
\<close>

definition getMixedOffsets :: "nat \<Rightarrow> int list \<Rightarrow> val list \<Rightarrow> ofr list outcome" where
  "getMixedOffsets start staticOffsets operands =
     getMixedValues staticOffsets (take (numDynamic staticOffsets) (drop start operands))"

definition getMixedSizes ::
  "nat \<Rightarrow> int list \<Rightarrow> int list \<Rightarrow> val list \<Rightarrow> ofr list outcome" where
  "getMixedSizes start staticOffsets staticSizes operands =
     getMixedValues staticSizes
       (take (numDynamic staticSizes) (drop (start + numDynamic staticOffsets) operands))"

definition getMixedStrides ::
  "nat \<Rightarrow> int list \<Rightarrow> int list \<Rightarrow> int list \<Rightarrow> val list \<Rightarrow> ofr list outcome" where
  "getMixedStrides start staticOffsets staticSizes staticStrides operands =
     getMixedValues staticStrides
       (take (numDynamic staticStrides)
          (drop (start + numDynamic staticOffsets + numDynamic staticSizes) operands))"

definition isExtractSliceOp :: "operation \<Rightarrow> bool" where
  "isExtractSliceOp op = (case opKind op of ExtractSliceOp _ _ _ \<Rightarrow> True | _ \<Rightarrow> False)"

text \<open>\<open>llvm::equal\<close> on two ranges that are computed first.\<close>

definition rangesEqual :: "'a outcome \<Rightarrow> 'a outcome \<Rightarrow> bool outcome" where
  "rangesEqual xs ys =
     (case xs of
        AssertionFailure \<Rightarrow> AssertionFailure
      | Returned x \<Rightarrow>
          (case ys of
             AssertionFailure \<Rightarrow> AssertionFailure
           | Returned y \<Rightarrow> Returned (x = y)))"

text \<open>\<open>&&\<close>, which evaluates its right operand only if the left one is true.\<close>

definition andAlso :: "bool outcome \<Rightarrow> bool outcome \<Rightarrow> bool outcome" where
  "andAlso l r =
     (case l of
        AssertionFailure \<Rightarrow> AssertionFailure
      | Returned False \<Rightarrow> Returned False
      | Returned True \<Rightarrow> r)"

text \<open>
  The lambda \<open>isMatchingParallelInsertSlice\<close>: a \<open>parallel_insert_slice\<close> into the block
  argument with the offsets, sizes and strides of the \<open>extract_slice\<close>.
\<close>

definition isMatchingParallelInsertSlice ::
  "val \<Rightarrow> operation \<Rightarrow> operation \<Rightarrow> bool outcome" where
  "isMatchingParallelInsertSlice bbArg extractSliceOp op =
     (case opKind op of
        ParallelInsertSliceOp io isz ist \<Rightarrow>
          (case elementAt (opOperands op) 1 of
             AssertionFailure \<Rightarrow> AssertionFailure
           | Returned dest \<Rightarrow>
               if dest \<noteq> bbArg then Returned False
               else
                 (case opKind extractSliceOp of
                    ExtractSliceOp eo esz est \<Rightarrow>
                      andAlso
                        (rangesEqual (getMixedOffsets 2 io (opOperands op))
                           (getMixedOffsets 1 eo (opOperands extractSliceOp)))
                        (andAlso
                           (rangesEqual (getMixedSizes 2 io isz (opOperands op))
                              (getMixedSizes 1 eo esz (opOperands extractSliceOp)))
                           (rangesEqual (getMixedStrides 2 io isz ist (opOperands op))
                              (getMixedStrides 1 eo esz est (opOperands extractSliceOp))))
                  | _ \<Rightarrow> AssertionFailure))
      | _ \<Rightarrow> Returned False)"

text \<open>\<open>llvm::none_of\<close> over the yielding operations.\<close>

fun noneMatching :: "(operation \<Rightarrow> bool outcome) \<Rightarrow> operation list \<Rightarrow> bool outcome" where
  "noneMatching p [] = Returned True"
| "noneMatching p (op # ops) =
     (case p op of
        AssertionFailure \<Rightarrow> AssertionFailure
      | Returned True \<Rightarrow> Returned False
      | Returned False \<Rightarrow> noneMatching p ops)"

text \<open>
  One iteration of the loop over the indices: \<open>Inl\<close> is the early return with a failure,
  \<open>Inr\<close> the payload with which the loop goes on (unchanged after a \<open>continue\<close>).
\<close>

definition shareOneOperand ::
  "op_id \<Rightarrow> int \<Rightarrow> operation \<Rightarrow> (diagnosed + operation) outcome" where
  "shareOneOperand forallId outputIdx payload =
     (case findOp payload forallId of
        None \<Rightarrow> AssertionFailure
      | Some forallOp \<Rightarrow>
          (case getOutputs forallOp of
             AssertionFailure \<Rightarrow> AssertionFailure
           | Returned outputs \<Rightarrow>
               if outputIdx < 0 \<or> int (length outputs) \<le> outputIdx then
                 Returned (Inl (DefiniteFailure (Some forallId) ''operand idx overflow''))
               else
                 (let toShare = outputs ! nat outputIdx in
                  if length (usesIn payload toShare) \<noteq> 2 then Returned (Inr payload)
                  else
                    (case find isExtractSliceOp (map fst (usesIn payload toShare)) of
                       None \<Rightarrow> Returned (Inr payload)
                     | Some extractSliceOp \<Rightarrow>
                         (case getOutputBlockArguments forallOp of
                            AssertionFailure \<Rightarrow> AssertionFailure
                          | Returned bbArgs \<Rightarrow>
                              (case elementAt bbArgs (nat outputIdx) of
                                 AssertionFailure \<Rightarrow> AssertionFailure
                               | Returned bbArg \<Rightarrow>
                                   (case getYieldingOps forallOp of
                                      AssertionFailure \<Rightarrow> AssertionFailure
                                    | Returned yieldingOps \<Rightarrow>
                                        (case noneMatching
                                                (isMatchingParallelInsertSlice bbArg
                                                   extractSliceOp) yieldingOps of
                                           AssertionFailure \<Rightarrow> AssertionFailure
                                         | Returned True \<Rightarrow> Returned (Inr payload)
                                         | Returned False \<Rightarrow>
                                             Returned (Inr (setOperand (opId extractSliceOp)
                                               0 bbArg payload))))))))))"

text \<open>
  The loop over the indices. The rewrites are made in place: an early return leaves with
  the failure and with the payload as the iterations before it left it.
\<close>

fun shareLoop ::
  "op_id \<Rightarrow> int list \<Rightarrow> operation \<Rightarrow> (diagnosed option \<times> operation) outcome" where
  "shareLoop forallId [] payload = Returned (None, payload)"
| "shareLoop forallId (outputIdx # rest) payload =
     (case shareOneOperand forallId outputIdx payload of
        AssertionFailure \<Rightarrow> AssertionFailure
      | Returned (Inl failure) \<Rightarrow> Returned (Some failure, payload)
      | Returned (Inr payload') \<Rightarrow> shareLoop forallId rest payload')"

text \<open>
  \<open>ShareForallOperandsOp::applyToOne\<close>, on the attribute \<open>share_operands\<close>, the payload and
  the target \<open>scf.forall\<close>. The local vector \<open>shareOperands\<close> is a copy of the attribute
  that an empty attribute turns into all the output indices; the loop runs over the
  attribute itself. The result is the diagnostic, the results pushed and the payload as
  the call leaves it: an early return keeps what the iterations before it rewrote.
\<close>

definition ShareForallOperandsOp_applyToOne ::
  "int list \<Rightarrow> operation \<Rightarrow> op_id \<Rightarrow> (diagnosed \<times> op_id list \<times> operation) outcome" where
  "ShareForallOperandsOp_applyToOne getShareOperands payload forallId =
     (case findOp payload forallId of
        None \<Rightarrow> AssertionFailure
      | Some forallOp \<Rightarrow>
          (case (if getShareOperands = [] then
                   (case getOutputs forallOp of
                      AssertionFailure \<Rightarrow> AssertionFailure
                    | Returned outputs \<Rightarrow> Returned (map int [0 ..< length outputs]))
                 else Returned getShareOperands) of
             AssertionFailure \<Rightarrow> AssertionFailure
           | Returned shareOperands \<Rightarrow>
               (case shareLoop forallId getShareOperands payload of
                  AssertionFailure \<Rightarrow> AssertionFailure
                | Returned (Some failure, payload') \<Rightarrow> Returned (failure, [], payload')
                | Returned (None, payload') \<Rightarrow> Returned (DiagSuccess, [forallId], payload'))))"

text \<open>
  A payload to try the operation on: a function with one tensor argument, used as the
  output of an \<open>scf.forall\<close> over one induction variable. The body extracts a slice of the
  function argument (and not of the block argument that stands for it), works on it and
  inserts it back into the block argument.
\<close>

definition forallFunc :: operation where
  "forallFunc =
     Operation 0 FuncOp [] []
       [[Block 0 [OtherType 1]
          [Operation 1 (ForallOp 0 1) [BlockArgument 0 0] [OtherType 1]
             [[Block 1 [OtherType 0, OtherType 1]
                 [Operation 2 (ExtractSliceOp [kDynamic] [4] [1])
                    [BlockArgument 0 0, BlockArgument 1 0] [OtherType 2] [],
                  Operation 3 (LinalgOp 0) [OpResult 2 0] [OtherType 2] [],
                  Operation 4 InParallelOp [] []
                    [[Block 2 []
                        [Operation 5 (ParallelInsertSliceOp [kDynamic] [4] [1])
                           [OpResult 3 0, BlockArgument 1 1, BlockArgument 1 0] [] []]]]]]],
           Operation 6 ReturnOp [OpResult 1 0] [] []]]]"

section \<open>HoistStaticAllocOp\<close>

text \<open>
  The template argument \<open>AllocLikeOpType\<close> of the hoisting functions: \<open>memref.alloc\<close>
  (heap) or \<open>memref.alloca\<close> (stack).
\<close>

datatype allocLike = MemrefAllocOp | MemrefAllocaOp

fun isaAllocLike :: "allocLike \<Rightarrow> operation \<Rightarrow> bool" where
  "isaAllocLike MemrefAllocOp op = (case opKind op of AllocOp _ _ \<Rightarrow> True | _ \<Rightarrow> False)"
| "isaAllocLike MemrefAllocaOp op = (case opKind op of AllocaOp _ _ \<Rightarrow> True | _ \<Rightarrow> False)"

definition isDeallocOp :: "operation \<Rightarrow> bool" where
  "isDeallocOp op = (opKind op = DeallocOp)"

text \<open>The accessors of an allocation: its memref type, dynamic sizes and alignment.\<close>

definition getType :: "operation \<Rightarrow> memref_type outcome" where
  "getType op =
     (case opResultTypes op of
        [MemRefType t] \<Rightarrow> Returned t
      | _ \<Rightarrow> AssertionFailure)"

definition getDynamicSizes :: "operation \<Rightarrow> val list" where
  "getDynamicSizes op =
     (case opKind op of
        AllocOp alignment n \<Rightarrow> take n (opOperands op)
      | AllocaOp alignment n \<Rightarrow> take n (opOperands op)
      | _ \<Rightarrow> [])"

definition getAlignment :: "operation \<Rightarrow> nat option" where
  "getAlignment op =
     (case opKind op of
        AllocOp alignment n \<Rightarrow> alignment
      | AllocaOp alignment n \<Rightarrow> alignment
      | _ \<Rightarrow> None)"

text \<open>
  What the builder creates. An allocation of a type and an alignment has no operands; a
  deallocation has the memref as its operand; a sub-view has the source and the dynamic
  offsets, sizes and strides as operands, the static ones as attributes, and the result
  type the host infers.
\<close>

fun createAllocLike :: "allocLike \<Rightarrow> op_id \<Rightarrow> memref_type \<Rightarrow> nat option \<Rightarrow> operation" where
  "createAllocLike MemrefAllocOp i t alignment =
     Operation i (AllocOp alignment 0) [] [MemRefType t] []"
| "createAllocLike MemrefAllocaOp i t alignment =
     Operation i (AllocaOp alignment 0) [] [MemRefType t] []"

definition createDeallocOp :: "op_id \<Rightarrow> val \<Rightarrow> operation" where
  "createDeallocOp i memref = Operation i DeallocOp [memref] [] []"

fun staticPart :: "ofr \<Rightarrow> int" where
  "staticPart (AttrOFR n) = n"
| "staticPart (ValueOFR v) = kDynamic"

fun dynamicPart :: "ofr \<Rightarrow> val list" where
  "dynamicPart (AttrOFR n) = []"
| "dynamicPart (ValueOFR v) = [v]"

definition createSubViewOp ::
  "host \<Rightarrow> op_id \<Rightarrow> val \<Rightarrow> memref_type \<Rightarrow> ofr list \<Rightarrow> ofr list \<Rightarrow> ofr list \<Rightarrow> operation" where
  "createSubViewOp h i source sourceType offsets sizes strides =
     Operation i
       (SubViewOp (map staticPart offsets) (map staticPart sizes) (map staticPart strides))
       (source # concat (map dynamicPart offsets) @ concat (map dynamicPart sizes)
          @ concat (map dynamicPart strides))
       [inferSubViewResultType h sourceType (map staticPart offsets) (map staticPart sizes)
          (map staticPart strides)]
       []"

text \<open>
  The deallocation that a heap allocation gets: created right before the terminator of
  the first block of the function.
\<close>

definition insertDeallocBeforeTerminator :: "val \<Rightarrow> operation \<Rightarrow> operation outcome" where
  "insertDeallocBeforeTerminator allocation funcOp =
     (case frontBlock funcOp of
        AssertionFailure \<Rightarrow> AssertionFailure
      | Returned entry \<Rightarrow>
          (case getTerminator entry of
             AssertionFailure \<Rightarrow> AssertionFailure
           | Returned terminator \<Rightarrow>
               Returned (insertBefore (opId terminator)
                 (createDeallocOp (freshOpId funcOp) allocation) funcOp)))"

text \<open>
  The loop over the dimensions of the dynamic case, with \<open>index\<close>, \<open>staticShape\<close> and
  \<open>subviewSizes\<close> as it goes: a static dimension is kept, a dynamic one takes the
  upper bound of the next dynamic size; \<open>Returned None\<close> is the exit with \<open>std::nullopt\<close>.
\<close>

fun boundDimensions ::
  "host \<Rightarrow> operation \<Rightarrow> int list \<Rightarrow> val list \<Rightarrow> nat \<Rightarrow> int list \<Rightarrow> ofr list
    \<Rightarrow> (int list \<times> ofr list) option outcome" where
  "boundDimensions h funcOp [] dynamicSizes index staticShape subviewSizes =
     Returned (Some (staticShape, subviewSizes))"
| "boundDimensions h funcOp (dimSize # shp) dynamicSizes index staticShape subviewSizes =
     (if \<not> isDynamic dimSize then
        boundDimensions h funcOp shp dynamicSizes index
          (staticShape @ [dimSize]) (subviewSizes @ [AttrOFR dimSize])
      else
        (case elementAt dynamicSizes index of
           AssertionFailure \<Rightarrow> AssertionFailure
         | Returned dynamicSize \<Rightarrow>
             (case getConstantUpperBoundForIndex h funcOp dynamicSize of
                None \<Rightarrow> Returned None
              | Some ub \<Rightarrow>
                  boundDimensions h funcOp shp dynamicSizes (Suc index)
                    (staticShape @ [ub]) (subviewSizes @ [ValueOFR dynamicSize]))))"

text \<open>
  \<open>hoistOneStaticallyBoundAllocation\<close> on the type, the dynamic sizes and the alignment.
  The builder's insertion point, \<open>insertionPoint\<close>, is the allocation to hoist: the
  sub-view is created right before it. The result is the replacement value and the
  function as rewritten, or \<open>None\<close> for \<open>std::nullopt\<close>.
\<close>

definition hoistOneStaticallyBoundAllocation ::
  "allocLike \<Rightarrow> host \<Rightarrow> operation \<Rightarrow> op_id \<Rightarrow> memref_type \<Rightarrow> val list \<Rightarrow> nat option
    \<Rightarrow> (val \<times> operation) option outcome" where
  "hoistOneStaticallyBoundAllocation K h funcOp insertionPoint allocLikeType dynamicSizes
       alignment =
     (if dynamicSizes = [] then
        (case frontBlock funcOp of
           AssertionFailure \<Rightarrow> AssertionFailure
         | Returned entry \<Rightarrow>
             (let allocId = freshOpId funcOp;
                  allocation = OpResult allocId 0;
                  funcOp1 = insertAtStart (blockId entry)
                    (createAllocLike K allocId allocLikeType alignment) funcOp
              in if K = MemrefAllocOp then
                   (case insertDeallocBeforeTerminator allocation funcOp1 of
                      AssertionFailure \<Rightarrow> AssertionFailure
                    | Returned funcOp2 \<Rightarrow> Returned (Some (allocation, funcOp2)))
                 else Returned (Some (allocation, funcOp1))))
      else
        (case boundDimensions h funcOp (getShape allocLikeType) dynamicSizes 0 [] [] of
           AssertionFailure \<Rightarrow> AssertionFailure
         | Returned None \<Rightarrow> Returned None
         | Returned (Some (staticShape, subviewSizes)) \<Rightarrow>
             (let offsets = replicate (getRank allocLikeType) (AttrOFR 0);
                  strides = replicate (getRank allocLikeType) (AttrOFR 1)
              in case frontBlock funcOp of
                   AssertionFailure \<Rightarrow> AssertionFailure
                 | Returned entry \<Rightarrow>
                     (let allocId = freshOpId funcOp;
                          allocationType =
                            MemRefType_get staticShape (getElementType allocLikeType);
                          allocation = OpResult allocId 0;
                          funcOp1 = insertAtStart (blockId entry)
                            (createAllocLike K allocId allocationType alignment) funcOp;
                          subviewId = freshOpId funcOp1;
                          subviewOp = OpResult subviewId 0;
                          funcOp2 = insertBefore insertionPoint
                            (createSubViewOp h subviewId allocation allocationType offsets
                               subviewSizes strides) funcOp1
                      in if K = MemrefAllocOp then
                           (case insertDeallocBeforeTerminator allocation funcOp2 of
                              AssertionFailure \<Rightarrow> AssertionFailure
                            | Returned funcOp3 \<Rightarrow> Returned (Some (subviewOp, funcOp3)))
                         else Returned (Some (subviewOp, funcOp2))))))"

text \<open>The overload that takes the allocation itself.\<close>

definition hoistOneStaticallyBoundAllocationOp ::
  "allocLike \<Rightarrow> host \<Rightarrow> operation \<Rightarrow> operation \<Rightarrow> (val \<times> operation) option outcome" where
  "hoistOneStaticallyBoundAllocationOp K h funcOp allocLikeOp =
     (case getType allocLikeOp of
        AssertionFailure \<Rightarrow> AssertionFailure
      | Returned allocLikeType \<Rightarrow>
          hoistOneStaticallyBoundAllocation K h funcOp (opId allocLikeOp) allocLikeType
            (getDynamicSizes allocLikeOp) (getAlignment allocLikeOp))"

definition isUseReplaceableWithSubview :: "operation \<times> nat \<Rightarrow> bool" where
  "isUseReplaceableWithSubview use =
     (case opKind (fst use) of
        LinalgOp _ \<Rightarrow> True
      | DeallocOp \<Rightarrow> True
      | StoreOp \<Rightarrow> True
      | SubViewOp _ _ _ \<Rightarrow> True
      | _ \<Rightarrow> False)"

text \<open>
  The first loop of \<open>hoistStaticallyBoundAllocationsInFunc\<close>: the walk that collects the
  allocations to hoist, over the operations of the function in the order of the walk.
\<close>

fun collectHoistable :: "allocLike \<Rightarrow> operation \<Rightarrow> operation list \<Rightarrow> op_id list outcome" where
  "collectHoistable K funcOp [] = Returned []"
| "collectHoistable K funcOp (op # ops) =
     (if \<not> isaAllocLike K op then collectHoistable K funcOp ops
      else
        (case frontBlock funcOp of
           AssertionFailure \<Rightarrow> AssertionFailure
         | Returned entry \<Rightarrow>
             if getBlock funcOp (opId op) = Some (blockId entry) then
               collectHoistable K funcOp ops
             else if getDynamicSizes op = []
                  \<or> list_all isUseReplaceableWithSubview (getUses funcOp op) then
               (case collectHoistable K funcOp ops of
                  AssertionFailure \<Rightarrow> AssertionFailure
                | Returned allocLikeOps \<Rightarrow> Returned (opId op # allocLikeOps))
             else collectHoistable K funcOp ops))"

text \<open>
  \<open>RewriterBase::replaceOp\<close> with one replacement value: every use of the result is
  replaced, then the operation is erased.
\<close>

definition replaceOp :: "op_id \<Rightarrow> val \<Rightarrow> operation \<Rightarrow> operation" where
  "replaceOp i replacementVal root =
     eraseOp i (replaceAllUsesWith (OpResult i 0) replacementVal root)"

text \<open>
  The body of the second loop, for one collected allocation, on the function as the
  iterations before left it: record the deallocations among the users, hoist, and if a
  replacement came back, replace the allocation by it and erase the recorded
  deallocations.
\<close>

definition hoistAndReplace :: "allocLike \<Rightarrow> host \<Rightarrow> op_id \<Rightarrow> operation \<Rightarrow> operation outcome" where
  "hoistAndReplace K h allocId funcOp =
     (case findOp funcOp allocId of
        None \<Rightarrow> AssertionFailure
      | Some allocLikeOp \<Rightarrow>
          (let deallocOps = map opId (filter isDeallocOp (getUsers funcOp allocLikeOp))
           in case hoistOneStaticallyBoundAllocationOp K h funcOp allocLikeOp of
                AssertionFailure \<Rightarrow> AssertionFailure
              | Returned None \<Rightarrow> Returned funcOp
              | Returned (Some (replacementVal, funcOp1)) \<Rightarrow>
                  Returned (fold eraseOp deallocOps (replaceOp allocId replacementVal funcOp1))))"

fun hoistLoop :: "allocLike \<Rightarrow> host \<Rightarrow> op_id list \<Rightarrow> operation \<Rightarrow> operation outcome" where
  "hoistLoop K h [] funcOp = Returned funcOp"
| "hoistLoop K h (allocId # allocLikeOps) funcOp =
     (case hoistAndReplace K h allocId funcOp of
        AssertionFailure \<Rightarrow> AssertionFailure
      | Returned funcOp' \<Rightarrow> hoistLoop K h allocLikeOps funcOp')"

definition hoistStaticallyBoundAllocationsInFunc ::
  "allocLike \<Rightarrow> host \<Rightarrow> operation \<Rightarrow> operation outcome" where
  "hoistStaticallyBoundAllocationsInFunc K h funcOp =
     (case collectHoistable K funcOp (walk funcOp) of
        AssertionFailure \<Rightarrow> AssertionFailure
      | Returned allocLikeOps \<Rightarrow> hoistLoop K h allocLikeOps funcOp)"

text \<open>
  \<open>HoistStaticAllocOp::applyToOne\<close> hoists the heap allocations of the function, pushes
  the function as its result and returns success.
\<close>

definition HoistStaticAllocOp_applyToOne ::
  "host \<Rightarrow> operation \<Rightarrow> (diagnosed \<times> op_id list \<times> operation) outcome" where
  "HoistStaticAllocOp_applyToOne h funcOp =
     (case hoistStaticallyBoundAllocationsInFunc MemrefAllocOp h funcOp of
        AssertionFailure \<Rightarrow> AssertionFailure
      | Returned funcOp' \<Rightarrow> Returned (DiagSuccess, [opId funcOp], funcOp'))"

text \<open>
  Payloads to try the hoisting on. In \<open>staticAllocFunc\<close> the body of a loop allocates a
  buffer of four elements, stores into it and frees it. In \<open>dynamicAllocFunc\<close> the buffer
  has \<open>n\<close> by four elements, \<open>n\<close> being the first argument of the function.
\<close>

definition staticAllocOp :: operation where
  "staticAllocOp = Operation 2 (AllocOp (Some 64) 0) [] [MemRefType (MemRef [4] 0 0 0)] []"

definition staticAllocEntry :: block where
  "staticAllocEntry =
     Block 0 [OtherType 0]
       [Operation 1 ScfForOp [] []
          [[Block 1 [OtherType 0]
              [staticAllocOp,
               Operation 3 StoreOp [BlockArgument 0 0, OpResult 2 0] [] [],
               Operation 4 DeallocOp [OpResult 2 0] [] [],
               Operation 5 (OtherOp 0 [IsTerminator]) [] [] []]]],
        Operation 6 ReturnOp [] [] []]"

definition staticAllocFunc :: operation where
  "staticAllocFunc = Operation 0 FuncOp [] [] [[staticAllocEntry]]"

definition dynamicAllocOp :: operation where
  "dynamicAllocOp =
     Operation 2 (AllocOp None 1) [BlockArgument 0 0]
       [MemRefType (MemRef [kDynamic, 4] 0 0 0)] []"

definition dynamicAllocEntry :: block where
  "dynamicAllocEntry =
     Block 0 [OtherType 0]
       [Operation 1 ScfForOp [] []
          [[Block 1 [OtherType 0]
              [dynamicAllocOp,
               Operation 3 StoreOp [BlockArgument 1 0, OpResult 2 0] [] [],
               Operation 4 DeallocOp [OpResult 2 0] [] [],
               Operation 5 (OtherOp 0 [IsTerminator]) [] [] []]]],
        Operation 6 ReturnOp [] [] []]"

definition dynamicAllocFunc :: operation where
  "dynamicAllocFunc = Operation 0 FuncOp [] [] [[dynamicAllocEntry]]"

text \<open>A host that bounds the first argument of the function by 16, and one that cannot.\<close>

definition boundingHost :: host where
  "boundingHost =
     restingHost
       \<lparr> getConstantUpperBoundForIndex :=
           (\<lambda>payload v. if v = BlockArgument 0 0 then Some 16 else None),
         inferSubViewResultType :=
           (\<lambda>source offsets sizes strides.
              MemRefType (MemRef sizes (getElementType source) 1 (getMemorySpace source))) \<rparr>"


text \<open>
  What the host's verifier guarantees of a function that the hoisting is applied to, as
  far as the hoisting relies on it: the identifiers (the addresses) of its operations are
  distinct; an allocation has one result of memref type, as many dynamic sizes as its
  type has dynamic dimensions, no region, and does not use its own result; a deallocation
  has no region.
\<close>

definition isAllocation :: "operation \<Rightarrow> bool" where
  "isAllocation op = (isaAllocLike MemrefAllocOp op \<or> isaAllocLike MemrefAllocaOp op)"

definition verifiedOp :: "operation \<Rightarrow> bool" where
  "verifiedOp op =
     (if isAllocation op then
        (case getType op of
           AssertionFailure \<Rightarrow> False
         | Returned t \<Rightarrow> length (getDynamicSizes op) = numDynamic (getShape t))
        \<and> opRegions op = [] \<and> getResult op 0 \<notin> set (opOperands op)
      else if isDeallocOp op then opRegions op = []
      else True)"

definition verifiedFunc :: "operation \<Rightarrow> bool" where
  "verifiedFunc funcOp =
     (opKind funcOp = FuncOp \<and> distinct (map opId (walk funcOp))
      \<and> list_all verifiedOp (walk funcOp))"



text \<open>
  An allocation has an unbounded size when the host finds no constant upper bound for
  one of its dynamic sizes; a collected allocation is an unbounded candidate when it is
  such an allocation of the function.
\<close>

definition hasUnboundedSize :: "host \<Rightarrow> operation \<Rightarrow> operation \<Rightarrow> bool" where
  "hasUnboundedSize h funcOp allocLikeOp =
     list_ex (\<lambda>v. getConstantUpperBoundForIndex h funcOp v = None)
       (getDynamicSizes allocLikeOp)"

definition unboundedCandidate :: "host \<Rightarrow> operation \<Rightarrow> op_id \<Rightarrow> bool" where
  "unboundedCandidate h funcOp allocId =
     (case findOp funcOp allocId of
        None \<Rightarrow> False
      | Some allocLikeOp \<Rightarrow> hasUnboundedSize h funcOp allocLikeOp)"


section \<open>Properties\<close>

subsection \<open>Walks\<close>


lemma walk_trans_aux:
  "(f \<in> set (walk t) \<longrightarrow> x \<in> set (walk f) \<longrightarrow> x \<in> set (walk t))"
  "(f \<in> set (walkBlock b) \<longrightarrow> x \<in> set (walk f) \<longrightarrow> x \<in> set (walkBlock b))"
proof (induction t and b rule: walk_walkBlock.induct)
  case (1 i k os ts rs)
  then show ?case by auto
next
  case (2 b as ops)
  then show ?case by auto
qed

lemma walk_trans: "f \<in> set (walk t) \<Longrightarrow> x \<in> set (walk f) \<Longrightarrow> x \<in> set (walk t)"
  using walk_trans_aux(1) by blast

lemma findOp_in_walk: "findOp root i = Some op \<Longrightarrow> op \<in> set (walk root)"
  by (auto simp: findOp_def find_Some_iff)

lemma findOp_opId: "findOp root i = Some op \<Longrightarrow> opId op = i"
  by (auto simp: findOp_def find_Some_iff)



subsection \<open>The fusion legality gate\<close>

lemma set_sv_insert_range: "set (sv_insert_range xs s) = set xs \<union> set s"
  unfolding sv_insert_range_def
  by (induction xs arbitrary: s) (auto simp: sv_insert_def)

lemma distinct_sv_insert_range: "distinct s \<Longrightarrow> distinct (sv_insert_range xs s)"
  unfolding sv_insert_range_def
  by (induction xs arbitrary: s) (auto simp: sv_insert_def)

lemma addOperands_considered:
  "addOperands (Some op) s = sv_insert_range (consideredOperands op) s"
  by (simp add: consideredOperands_def split: op_kind.splits)

text \<open>The set the gate builds has as many elements as the deduplicated union.\<close>

lemma fused_set_size:
  "length (addOperands (Some producer) (sv_remove r (addOperands (Some consumer) []))) =
   card ((set (consideredOperands consumer) - {r}) \<union> set (consideredOperands producer))"
proof -
  let ?s1 = "sv_insert_range (consideredOperands consumer) []"
  have d1: "distinct ?s1" by (rule distinct_sv_insert_range) simp
  have d2: "distinct (sv_remove r ?s1)" using d1 by (simp add: sv_remove_def)
  have s2: "set (sv_remove r ?s1) = set (consideredOperands consumer) - {r}"
    using d1 by (simp add: sv_remove_def set_sv_insert_range)
  let ?s3 = "sv_insert_range (consideredOperands producer) (sv_remove r ?s1)"
  have "distinct ?s3" using d2 by (rule distinct_sv_insert_range)
  then have "length ?s3 = card (set ?s3)" by (simp add: distinct_card)
  also have "set ?s3 =
      set (consideredOperands producer) \<union> (set (consideredOperands consumer) - {r})"
    by (simp add: set_sv_insert_range s2)
  finally show ?thesis unfolding addOperands_considered by (simp add: Un_commute)
qed

lemma gate_unfold:
  assumes "getDefiningOp root (getValue fusedOperand) = Some producer"
  shows "setFusedOpOperandLimit limit root fusedOperand =
    (getNumResults producer = 1 \<and>
     card ((set (consideredOperands (getOwner fusedOperand)) - {getResult producer 0})
           \<union> set (consideredOperands producer)) \<le> int_to_size_t limit)"
  using assms
  by (simp add: setFusedOpOperandLimit_def Let_def fused_set_size del: addOperands.simps)

lemma gate_no_producer:
  "getDefiningOp root (getValue fusedOperand) = None \<Longrightarrow>
   \<not> setFusedOpOperandLimit limit root fusedOperand"
  by (simp add: setFusedOpOperandLimit_def)

lemma uint_scast_32_64: "uint (scast (limit :: 32 word) :: 64 word) = take_bit 64 (sint limit)"
  unfolding scast_eq uint_word_of_int_eq by simp

lemma sint_32_less: "sint (limit :: 32 word) < 2 ^ 64"
proof -
  have "sint limit < 2 ^ (LENGTH(32) - 1)" by (rule sint_lt)
  also have "\<dots> < (2::int) ^ 64" by simp
  finally show ?thesis .
qed

lemma int_to_size_t_nonneg: "0 \<le> sint limit \<Longrightarrow> int (int_to_size_t limit) = sint limit"
  using uint_scast_32_64 [of limit] sint_32_less [of limit]
  by (simp add: int_to_size_t_def take_bit_int_eq_self)

lemma int_to_size_t_3: "int_to_size_t 3 = 3"
  by (simp add: int_to_size_t_def)

lemma int_to_size_t_minus_1: "int_to_size_t (- 1) = 2 ^ 64 - 1"
  by (simp add: int_to_size_t_def unsigned_minus_1_eq_mask mask_eq_exp_minus_1)

text \<open>Evaluating the example payload.\<close>

lemma gateFunc_producer:
  "findOp (gateFunc (gateProducer ins) consumer) (Suc 0) = Some (gateProducer ins)"
  by (simp add: gateFunc_def gateProducer_def findOp_def)

lemma gateProducer_facts:
  "getNumResults (gateProducer ins) = 1"
  "getResult (gateProducer ins) 0 = OpResult 1 0"
  "consideredOperands (gateProducer ins) = ins"
  by (simp_all add: gateProducer_def getNumResults_def getResult_def consideredOperands_def
      getDpsInputOperands_def)

lemma gateConsumer_facts:
  "consideredOperands (gateConsumer ins outs) = ins"
  by (simp add: gateConsumer_def consideredOperands_def getDpsInputOperands_def)

text \<open>
  C1. For a candidate whose fused value is defined by a producer, and a limit that is a
  bound on a number of operands (not negative, as the configured 3), the gate returns
  true exactly when the producer has one result and the deduplicated set (the considered
  operands of the consumer, without the producer's result, united with the considered
  operands of the producer) has at most \<open>limit\<close> elements. In particular a producer that
  does not have exactly one result is rejected.
\<close>

theorem fusion_gate_iff:
  assumes "getDefiningOp root (getValue fusedOperand) = Some producer"
    and "0 \<le> sint limit"
  shows "setFusedOpOperandLimit limit root fusedOperand =
    (getNumResults producer = 1 \<and>
     int (card ((set (consideredOperands (getOwner fusedOperand)) - {getResult producer 0})
           \<union> set (consideredOperands producer))) \<le> sint limit)"
proof -
  have "int (int_to_size_t limit) = sint limit"
    using assms(2) by (rule int_to_size_t_nonneg)
  then show ?thesis
    unfolding gate_unfold [OF assms(1)] by auto
qed

theorem fusion_gate_iff_witness:
  "getDefiningOp
     (gateFunc (gateProducer [BlockArgument 0 1])
        (gateConsumer [OpResult 1 0, BlockArgument 0 2, BlockArgument 0 3] [BlockArgument 0 4]))
     (getValue (OpOperand
        (gateConsumer [OpResult 1 0, BlockArgument 0 2, BlockArgument 0 3] [BlockArgument 0 4])
        (OpResult 1 0)))
     = Some (gateProducer [BlockArgument 0 1])
   \<and> 0 \<le> sint (3 :: 32 word)
   \<and> setFusedOpOperandLimit 3
       (gateFunc (gateProducer [BlockArgument 0 1])
          (gateConsumer [OpResult 1 0, BlockArgument 0 2, BlockArgument 0 3] [BlockArgument 0 4]))
       (OpOperand
          (gateConsumer [OpResult 1 0, BlockArgument 0 2, BlockArgument 0 3] [BlockArgument 0 4])
          (OpResult 1 0))"
proof -
  let ?p = "gateProducer [BlockArgument 0 1]"
  let ?c = "gateConsumer [OpResult 1 0, BlockArgument 0 2, BlockArgument 0 3] [BlockArgument 0 4]"
  have d: "getDefiningOp (gateFunc ?p ?c) (getValue (OpOperand ?c (OpResult 1 0))) = Some ?p"
    by (simp add: gateFunc_producer)
  have l: "0 \<le> sint (3 :: 32 word)" by simp
  have "setFusedOpOperandLimit 3 (gateFunc ?p ?c) (OpOperand ?c (OpResult 1 0))"
    unfolding fusion_gate_iff [OF d l]
    by (simp add: gateProducer_facts gateConsumer_facts)
  with d l show ?thesis by simp
qed

text \<open>
  A negative template argument is outside this: the comparison converts \<open>-1\<close> to the
  largest \<open>size_t\<close>, and a candidate with four distinct operands is then accepted.
\<close>

lemma fusion_gate_negative_limit:
  "setFusedOpOperandLimit (- 1)
     (gateFunc (gateProducer [BlockArgument 0 1])
        (gateConsumer [OpResult 1 0, BlockArgument 0 2, BlockArgument 0 3, BlockArgument 0 5]
           [BlockArgument 0 4]))
     (OpOperand
        (gateConsumer [OpResult 1 0, BlockArgument 0 2, BlockArgument 0 3, BlockArgument 0 5]
           [BlockArgument 0 4])
        (OpResult 1 0))
   \<and> \<not> (getNumResults (gateProducer [BlockArgument 0 1]) = 1 \<and>
        int (card ((set (consideredOperands
              (gateConsumer [OpResult 1 0, BlockArgument 0 2, BlockArgument 0 3, BlockArgument 0 5]
                 [BlockArgument 0 4]))
            - {getResult (gateProducer [BlockArgument 0 1]) 0})
           \<union> set (consideredOperands (gateProducer [BlockArgument 0 1]))))
        \<le> sint (- 1 :: 32 word))"
proof -
  let ?p = "gateProducer [BlockArgument 0 1]"
  let ?c = "gateConsumer [OpResult 1 0, BlockArgument 0 2, BlockArgument 0 3, BlockArgument 0 5]
              [BlockArgument 0 4]"
  have d: "getDefiningOp (gateFunc ?p ?c) (getValue (OpOperand ?c (OpResult 1 0))) = Some ?p"
    by (simp add: gateFunc_producer)
  have "setFusedOpOperandLimit (- 1) (gateFunc ?p ?c) (OpOperand ?c (OpResult 1 0))"
    unfolding gate_unfold [OF d]
    by (simp add: gateProducer_facts gateConsumer_facts int_to_size_t_minus_1)
  then show ?thesis by simp
qed

text \<open>
  C6 (as amended). With the limit 3, take a candidate whose producer has one result and
  shares no operand with the consumer apart from that result. The gate removes the fused
  value from the consumer's inputs before it counts, so it compares the number of distinct
  producer inputs plus the number of distinct consumer inputs other than the producer's
  result with 3. With 1 producer input and 2 consumer inputs besides the producer's
  result the count is 3 and the gate returns true; one more distinct operand on either
  side makes it 4 and the gate returns false.
\<close>

theorem fusion_gate_boundary:
  assumes "getDefiningOp root (getValue fusedOperand) = Some producer"
    and "getNumResults producer = 1"
    and "(set (consideredOperands (getOwner fusedOperand)) - {getResult producer 0})
           \<inter> set (consideredOperands producer) = {}"
  shows "setFusedOpOperandLimit 3 root fusedOperand =
    (card (set (consideredOperands producer))
     + card (set (consideredOperands (getOwner fusedOperand)) - {getResult producer 0}) \<le> 3)"
proof -
  have "card ((set (consideredOperands (getOwner fusedOperand)) - {getResult producer 0})
           \<union> set (consideredOperands producer)) =
        card (set (consideredOperands (getOwner fusedOperand)) - {getResult producer 0})
        + card (set (consideredOperands producer))"
    using assms(3) by (intro card_Un_disjoint) auto
  then show ?thesis
    unfolding gate_unfold [OF assms(1)] using assms(2)
    by (simp add: int_to_size_t_3 add.commute)
qed

theorem fusion_gate_boundary_witness:
  "setFusedOpOperandLimit 3
     (gateFunc (gateProducer [BlockArgument 0 1])
        (gateConsumer [BlockArgument 0 2, BlockArgument 0 3] [OpResult 1 0]))
     (OpOperand (gateConsumer [BlockArgument 0 2, BlockArgument 0 3] [OpResult 1 0])
        (OpResult 1 0))
   \<and> setFusedOpOperandLimit 3
     (gateFunc (gateProducer [BlockArgument 0 1])
        (gateConsumer [OpResult 1 0, BlockArgument 0 2, BlockArgument 0 3] [BlockArgument 0 4]))
     (OpOperand (gateConsumer [OpResult 1 0, BlockArgument 0 2, BlockArgument 0 3]
        [BlockArgument 0 4]) (OpResult 1 0))
   \<and> \<not> setFusedOpOperandLimit 3
     (gateFunc (gateProducer [BlockArgument 0 1, BlockArgument 0 5])
        (gateConsumer [OpResult 1 0, BlockArgument 0 2, BlockArgument 0 3] [BlockArgument 0 4]))
     (OpOperand (gateConsumer [OpResult 1 0, BlockArgument 0 2, BlockArgument 0 3]
        [BlockArgument 0 4]) (OpResult 1 0))
   \<and> \<not> setFusedOpOperandLimit 3
     (gateFunc (gateProducer [BlockArgument 0 1])
        (gateConsumer [OpResult 1 0, BlockArgument 0 2, BlockArgument 0 3, BlockArgument 0 5]
           [BlockArgument 0 4]))
     (OpOperand (gateConsumer [OpResult 1 0, BlockArgument 0 2, BlockArgument 0 3,
        BlockArgument 0 5] [BlockArgument 0 4]) (OpResult 1 0))"
proof -
  have inst: "setFusedOpOperandLimit 3 (gateFunc (gateProducer pins) (gateConsumer cins couts))
        (OpOperand (gateConsumer cins couts) (OpResult (Suc 0) 0)) =
      (card (set pins) + card (set cins - {OpResult (Suc 0) 0}) \<le> 3)"
    if "(set cins - {OpResult (Suc 0) 0}) \<inter> set pins = {}" for pins cins couts
    using fusion_gate_boundary [of "gateFunc (gateProducer pins) (gateConsumer cins couts)"
        "OpOperand (gateConsumer cins couts) (OpResult (Suc 0) 0)" "gateProducer pins"] that
    by (simp add: gateFunc_producer gateProducer_facts gateConsumer_facts)
  show ?thesis
    by (simp add: inst)
qed

text \<open>
  When the producer's result is itself one of the two inputs of the consumer, the
  combined count is 2 and not 3, and one more distinct operand on either side makes it 3:
  the gate still returns true.
\<close>

theorem fusion_gate_two_inputs:
  "setFusedOpOperandLimit 3
     (gateFunc (gateProducer [BlockArgument 0 1])
        (gateConsumer [OpResult 1 0, BlockArgument 0 2] [BlockArgument 0 4]))
     (OpOperand (gateConsumer [OpResult 1 0, BlockArgument 0 2] [BlockArgument 0 4])
        (OpResult 1 0))
   \<and> setFusedOpOperandLimit 3
     (gateFunc (gateProducer [BlockArgument 0 1, BlockArgument 0 5])
        (gateConsumer [OpResult 1 0, BlockArgument 0 2] [BlockArgument 0 4]))
     (OpOperand (gateConsumer [OpResult 1 0, BlockArgument 0 2] [BlockArgument 0 4])
        (OpResult 1 0))
   \<and> setFusedOpOperandLimit 3
     (gateFunc (gateProducer [BlockArgument 0 1])
        (gateConsumer [OpResult 1 0, BlockArgument 0 2, BlockArgument 0 5] [BlockArgument 0 4]))
     (OpOperand (gateConsumer [OpResult 1 0, BlockArgument 0 2, BlockArgument 0 5]
        [BlockArgument 0 4]) (OpResult 1 0))"
proof -
  have inst: "setFusedOpOperandLimit 3 (gateFunc (gateProducer pins) (gateConsumer cins couts))
        (OpOperand (gateConsumer cins couts) (OpResult (Suc 0) 0)) =
      (card ((set cins - {OpResult (Suc 0) 0}) \<union> set pins) \<le> 3)"
    for pins cins couts
  proof -
    have d: "getDefiningOp (gateFunc (gateProducer pins) (gateConsumer cins couts))
        (getValue (OpOperand (gateConsumer cins couts) (OpResult (Suc 0) 0))) =
        Some (gateProducer pins)"
      by (simp add: gateFunc_producer)
    show ?thesis
      unfolding gate_unfold [OF d]
      by (simp add: gateProducer_facts gateConsumer_facts int_to_size_t_3)
  qed
  show ?thesis by (simp add: inst)
qed

text \<open>
  C9. The gate is a function of the limit and of the operand and result structure of the
  candidate alone: two candidates, under any two payloads, that agree on whether the fused
  value has a producer, on the producer's number of results, first result and considered
  operands, and on the consumer's considered operands, get the same answer. The gate
  takes no other argument, keeps no state between calls and returns nothing but the
  boolean, so neither the order of calls nor an earlier call can change the answer.
\<close>

theorem fusion_gate_deterministic:
  assumes "fusionEdgeStructure root fusedOperand = fusionEdgeStructure root' fusedOperand'"
  shows "setFusedOpOperandLimit limit root fusedOperand =
         setFusedOpOperandLimit limit root' fusedOperand'"
proof (cases "getDefiningOp root (getValue fusedOperand)")
  case None
  then have "getDefiningOp root' (getValue fusedOperand') = None"
    using assms by (simp add: fusionEdgeStructure_def)
  with None show ?thesis by (simp add: gate_no_producer)
next
  case (Some p)
  then obtain p' where p': "getDefiningOp root' (getValue fusedOperand') = Some p'"
    using assms
    by (cases "getDefiningOp root' (getValue fusedOperand')")
      (auto simp: fusionEdgeStructure_def)
  have "getNumResults p = getNumResults p'" "getResult p 0 = getResult p' 0"
    "consideredOperands p = consideredOperands p'"
    "consideredOperands (getOwner fusedOperand) = consideredOperands (getOwner fusedOperand')"
    using assms Some p' by (simp_all add: fusionEdgeStructure_def)
  then show ?thesis
    unfolding gate_unfold [OF Some] gate_unfold [OF p'] by simp
qed

theorem fusion_gate_deterministic_witness:
  "fusionEdgeStructure
     (gateFunc (gateProducer [BlockArgument 0 1])
        (gateConsumer [OpResult 1 0, BlockArgument 0 2] [BlockArgument 0 4]))
     (OpOperand (gateConsumer [OpResult 1 0, BlockArgument 0 2] [BlockArgument 0 4])
        (OpResult 1 0))
   = fusionEdgeStructure
     (gateFunc (gateProducer [BlockArgument 0 1])
        (gateConsumer [OpResult 1 0, BlockArgument 0 2] [BlockArgument 0 6, BlockArgument 0 7]))
     (OpOperand (gateConsumer [OpResult 1 0, BlockArgument 0 2]
        [BlockArgument 0 6, BlockArgument 0 7]) (OpResult 1 0))
   \<and> setFusedOpOperandLimit 3
     (gateFunc (gateProducer [BlockArgument 0 1])
        (gateConsumer [OpResult 1 0, BlockArgument 0 2] [BlockArgument 0 4]))
     (OpOperand (gateConsumer [OpResult 1 0, BlockArgument 0 2] [BlockArgument 0 4])
        (OpResult 1 0))
   = setFusedOpOperandLimit 3
     (gateFunc (gateProducer [BlockArgument 0 1])
        (gateConsumer [OpResult 1 0, BlockArgument 0 2] [BlockArgument 0 6, BlockArgument 0 7]))
     (OpOperand (gateConsumer [OpResult 1 0, BlockArgument 0 2]
        [BlockArgument 0 6, BlockArgument 0 7]) (OpResult 1 0))"
proof -
  let ?p = "gateProducer [BlockArgument 0 1]"
  let ?c = "gateConsumer [OpResult 1 0, BlockArgument 0 2] [BlockArgument 0 4]"
  let ?c' = "gateConsumer [OpResult 1 0, BlockArgument 0 2] [BlockArgument 0 6, BlockArgument 0 7]"
  have s: "fusionEdgeStructure (gateFunc ?p ?c) (OpOperand ?c (OpResult 1 0)) =
           fusionEdgeStructure (gateFunc ?p ?c') (OpOperand ?c' (OpResult 1 0))"
    by (simp add: fusionEdgeStructure_def gateFunc_producer gateConsumer_facts)
  from s fusion_gate_deterministic [OF s, of 3] show ?thesis by simp
qed

subsection \<open>ApplyPatternsOp\<close>

text \<open>A fold whose steps all leave the state alone leaves it alone.\<close>

lemma fold_fixed: "(\<And>x. x \<in> set xs \<Longrightarrow> f x t = t) \<Longrightarrow> fold f xs t = t"
  by (induction xs) auto

lemma walkInterruptible_advance:
  "(\<And>op s. fst (callback op s) = WalkAdvance) \<Longrightarrow>
   fst (walkInterruptible callback ops s) = WalkAdvance"
proof (induction ops arbitrary: s)
  case Nil
  then show ?case by simp
next
  case (Cons op ops)
  obtain r s' where c: "callback op s = (r, s')" by (cases "callback op s")
  with Cons.prems [of op s] have "r = WalkAdvance" by simp
  with c Cons show ?case by simp
qed

lemma cseWalk_advance: "fst (cseWalk target) = WalkAdvance"
  unfolding cseWalk_def by (rule walkInterruptible_advance) simp

text \<open>
  C2. On a target that is not isolated from above the operation fails with a definite
  failure reported on the target, whatever the toggles and whatever the host would do,
  pushes no result and returns the payload as it was: the check comes before the rule set
  is assembled and before any host service is called.
\<close>

theorem apply_patterns_not_isolated:
  assumes "\<not> hasTrait IsIsolatedFromAbove target"
  shows "ApplyPatternsOp_applyToOne h tr target =
    (DefiniteFailure (Some (opId target))
       ''applies only to isolated-from-above targets because it needs to apply patterns greedily'',
     [], target)"
  using assms by (simp add: ApplyPatternsOp_applyToOne_def)

theorem apply_patterns_not_isolated_witness:
  "\<not> hasTrait IsIsolatedFromAbove (Operation 1 ScfForOp [] [] [])
   \<and> ApplyPatternsOp_applyToOne restingHost
       (noPatterns\<lparr>getCanonicalization := True, getLicm := True, getCse := True\<rparr>)
       (Operation 1 ScfForOp [] [] []) =
     (DefiniteFailure (Some 1)
        ''applies only to isolated-from-above targets because it needs to apply patterns greedily'',
      [], Operation 1 ScfForOp [] [] [])"
proof -
  have n: "\<not> hasTrait IsIsolatedFromAbove (Operation 1 ScfForOp [] [] [])" by simp
  from n apply_patterns_not_isolated [OF n, of restingHost
      "noPatterns\<lparr>getCanonicalization := True, getLicm := True, getCse := True\<rparr>"]
  show ?thesis by simp
qed

text \<open>
  C7. The walk of the \<open>cse\<close> phase is never interrupted, on any payload, and setting the
  \<open>cse\<close> toggle changes neither the diagnostic, nor the results, nor the payload the
  operation returns, for every host, every target and every setting of the other toggles.
\<close>

theorem apply_patterns_cse_no_effect:
  "fst (cseWalk payload) = WalkAdvance
   \<and> ApplyPatternsOp_applyToOne h (tr\<lparr>getCse := True\<rparr>) target =
     ApplyPatternsOp_applyToOne h (tr\<lparr>getCse := False\<rparr>) target"
proof -
  have a: "assemblePatterns (tr\<lparr>getCse := b\<rparr>) = assemblePatterns tr" for b
    by (simp add: assemblePatterns_def)
  have c: "(case cseWalk p of (walkRes, l) \<Rightarrow> if walkRes = WalkInterrupt then X l else Y) = Y"
    for p and X :: "op_id option \<Rightarrow> diagnosed \<times> op_id list \<times> operation" and Y
    using cseWalk_advance [of p] by (cases "cseWalk p") auto
  have "ApplyPatternsOp_applyToOne h (tr\<lparr>getCse := True\<rparr>) target =
     ApplyPatternsOp_applyToOne h (tr\<lparr>getCse := False\<rparr>) target"
    by (simp add: ApplyPatternsOp_applyToOne_def a c Let_def split: prod.splits)
  then show ?thesis by (simp add: cseWalk_advance)
qed

text \<open>
  The driver of \<open>foldingHost\<close> leaves the operation it is given in place and rewrites
  nothing on a payload it has already rewritten.
\<close>

lemma foldDead_header [simp]:
  "opId (foldDead x) = opId x" "opKind (foldDead x) = opKind x"
  by (cases x; simp)+




subsection \<open>ShareForallOperandsOp\<close>

text \<open>
  C10. On an \<open>scf.forall\<close> of the payload and an empty \<open>share_operands\<close> attribute the
  operation succeeds, returns the target and leaves the payload as it was: the vector that
  holds all the output indices is not the range the loop runs over, so the loop body is
  never entered.
\<close>

theorem share_forall_empty:
  assumes "findOp payload forallId = Some forallOp"
    and "opKind forallOp = ForallOp numControl rank"
  shows "ShareForallOperandsOp_applyToOne [] payload forallId =
         Returned (DiagSuccess, [forallId], payload)"
  using assms by (simp add: ShareForallOperandsOp_applyToOne_def getOutputs_def)

theorem share_forall_empty_witness:
  "map_option opKind (findOp forallFunc 1) = Some (ForallOp 0 1)
   \<and> ShareForallOperandsOp_applyToOne [] forallFunc 1 = Returned (DiagSuccess, [1], forallFunc)"
proof -
  obtain forallOp where f: "findOp forallFunc 1 = Some forallOp"
    and k: "opKind forallOp = ForallOp 0 1"
    by (simp add: forallFunc_def findOp_def)
  from f k share_forall_empty [OF f k] show ?thesis by simp
qed

text \<open>
  With the index 0 spelled out, the same payload is rewritten: the source of the
  \<open>extract_slice\<close> becomes the block argument of the output.
\<close>

lemma share_forall_index_0:
  "ShareForallOperandsOp_applyToOne [0] forallFunc 1 =
     Returned (DiagSuccess, [1], setOperand 2 0 (BlockArgument 1 1) forallFunc)"
  by code_simp

lemma share_forall_index_0_changes:
  "setOperand 2 0 (BlockArgument 1 1) forallFunc \<noteq> forallFunc"
  by code_simp


text \<open>
  An index past the outputs ends the run with a definite failure and no result; what the
  index before it rewrote stays rewritten.
\<close>

lemma share_forall_overflow_after_rewrite:
  "ShareForallOperandsOp_applyToOne [0, 5] forallFunc 1 =
     Returned (DefiniteFailure (Some 1) ''operand idx overflow'', [],
       setOperand 2 0 (BlockArgument 1 1) forallFunc)"
  by code_simp
subsection \<open>Edits of the IR\<close>

lemma mapBlocks_header [simp]:
  "opId (mapBlocks h x) = opId x" "opKind (mapBlocks h x) = opKind x"
  "opOperands (mapBlocks h x) = opOperands x" "opResultTypes (mapBlocks h x) = opResultTypes x"
  by (cases x; simp)+

lemma mapBlocksB_block [simp]:
  "blockId (mapBlocksB h b) = blockId b"
  "blockOps (mapBlocksB h b) = h (blockId b) (map (mapBlocks h) (blockOps b))"
  by (cases b; simp)+


lemma mapOperandLists_header [simp]:
  "opId (mapOperandLists g x) = opId x" "opKind (mapOperandLists g x) = opKind x"
  "opOperands (mapOperandLists g x) = g (opId x) (opOperands x)"
  "opResultTypes (mapOperandLists g x) = opResultTypes x"
  by (cases x; simp)+

lemma mapOperandListsB_block [simp]:
  "blockId (mapOperandListsB g b) = blockId b"
  "blockOps (mapOperandListsB g b) = map (mapOperandLists g) (blockOps b)"
  by (cases b; simp)+










subsection \<open>The first block\<close>






subsection \<open>Erasing\<close>

lemma eraseOp_header [simp]:
  "opId (eraseOp i x) = opId x" "opKind (eraseOp i x) = opKind x"
  "opOperands (eraseOp i x) = opOperands x" "opResultTypes (eraseOp i x) = opResultTypes x"
  by (simp_all add: eraseOp_def)




lemma fold_eraseOp_root [simp]: "opId (fold eraseOp D f) = opId f"
  by (induction D arbitrary: f) simp_all

lemma fold_eraseOp_header [simp]:
  "opKind (fold eraseOp D x) = opKind x"
  "opOperands (fold eraseOp D x) = opOperands x"
  "opResultTypes (fold eraseOp D x) = opResultTypes x"
  by (induction D arbitrary: x) simp_all






subsection \<open>The first block under the edits\<close>










lemma replaceAllUsesWith_header [simp]:
  "opId (replaceAllUsesWith old new x) = opId x"
  "opKind (replaceAllUsesWith old new x) = opKind x"
  "opOperands (replaceAllUsesWith old new x) =
     map (\<lambda>v. if v = old then new else v) (opOperands x)"
  "opResultTypes (replaceAllUsesWith old new x) = opResultTypes x"
  by (simp_all add: replaceAllUsesWith_def)

lemma insertBefore_header [simp]:
  "opId (insertBefore i d x) = opId x" "opKind (insertBefore i d x) = opKind x"
  "opOperands (insertBefore i d x) = opOperands x"
  "opResultTypes (insertBefore i d x) = opResultTypes x"
  by (simp_all add: insertBefore_def)

lemma insertAtStart_header [simp]:
  "opId (insertAtStart b n x) = opId x" "opKind (insertAtStart b n x) = opKind x"
  "opOperands (insertAtStart b n x) = opOperands x"
  "opResultTypes (insertAtStart b n x) = opResultTypes x"
  by (simp_all add: insertAtStart_def)
















subsection \<open>Hoisting\<close>

lemma distinct_ids_eq:
  "distinct (map opId (walk f)) \<Longrightarrow> x \<in> set (walk f) \<Longrightarrow> y \<in> set (walk f) \<Longrightarrow>
   opId x = opId y \<Longrightarrow> x = y"
  by (auto simp: distinct_map dest: inj_onD)



lemma createAllocLike_facts [simp]:
  "opId (createAllocLike K i t al) = i" "opOperands (createAllocLike K i t al) = []"
  "opRegions (createAllocLike K i t al) = []"
  "opResultTypes (createAllocLike K i t al) = [MemRefType t]"
  "isaAllocLike K (createAllocLike K i t al)"
  "getAlignment (createAllocLike K i t al) = al"
  by (cases K; simp add: getAlignment_def)+

lemma createDeallocOp_facts [simp]:
  "opId (createDeallocOp i v) = i" "opOperands (createDeallocOp i v) = [v]"
  "opRegions (createDeallocOp i v) = []" "opKind (createDeallocOp i v) = DeallocOp"
  by (simp_all add: createDeallocOp_def)











lemma replaceOp_header [simp]:
  "opKind (replaceOp a r x) = opKind x"
  "opResultTypes (replaceOp a r x) = opResultTypes x"
  "opOperands (replaceOp a r x) = map (\<lambda>v. if v = OpResult a 0 then r else v) (opOperands x)"
  by (simp_all add: replaceOp_def)





lemma replaceOp_root [simp]: "opId (replaceOp a r F) = opId F"
  by (simp add: replaceOp_def)












subsection \<open>Hoisting an allocation\<close>








text \<open>
  The second loop runs the step for each collected allocation in turn; on a function
  with one collected allocation the whole operation is that step.
\<close>

lemma hoist_single_candidate:
  assumes "collectHoistable MemrefAllocOp funcOp (walk funcOp) = Returned [allocId]"
    and "hoistAndReplace MemrefAllocOp h allocId funcOp = Returned funcOp'"
  shows "HoistStaticAllocOp_applyToOne h funcOp = Returned (DiagSuccess, [opId funcOp], funcOp')"
  using assms
  by (simp add: HoistStaticAllocOp_applyToOne_def hoistStaticallyBoundAllocationsInFunc_def)



text \<open>
  The whole operation on that function, which has the one allocation to hoist: the
  allocation of the loop body is now the first operation of the function, its
  deallocation stands before the return, and the store uses the new allocation.
\<close>

lemma hoist_static_example:
  "HoistStaticAllocOp_applyToOne restingHost staticAllocFunc =
   Returned (DiagSuccess, [0],
     Operation 0 FuncOp [] []
       [[Block 0 [OtherType 0]
          [Operation 7 (AllocOp (Some 64) 0) [] [MemRefType (MemRef [4] 0 0 0)] [],
           Operation 1 ScfForOp [] []
             [[Block 1 [OtherType 0]
                 [Operation 3 StoreOp [BlockArgument 0 0, OpResult 7 0] [] [],
                  Operation 5 (OtherOp 0 [IsTerminator]) [] [] []]]],
           Operation 8 DeallocOp [OpResult 7 0] [] [],
           Operation 6 ReturnOp [] [] []]]])"
  by code_simp

subsection \<open>Allocations that cannot be bounded\<close>

lemma numDynamic_simps [simp]:
  "numDynamic [] = 0"
  "numDynamic (d # shp) = (if isDynamic d then Suc (numDynamic shp) else numDynamic shp)"
  by (simp_all add: numDynamic_def)

lemma boundDimensions_unbounded:
  assumes "index + numDynamic shp = length dyn"
    and "\<exists>v \<in> set (drop index dyn). getConstantUpperBoundForIndex h f v = None"
  shows "boundDimensions h f shp dyn index ss sz = Returned None"
  using assms
proof (induction shp arbitrary: index ss sz)
  case Nil
  then show ?case by simp
next
  case (Cons d shp)
  show ?case
  proof (cases "isDynamic d")
    case False
    with Cons show ?thesis by simp
  next
    case True
    with Cons.prems(1) have lt: "index < length dyn" and
      nx: "Suc index + numDynamic shp = length dyn" by simp_all
    have dr: "drop index dyn = dyn ! index # drop (Suc index) dyn"
      using lt by (simp add: Cons_nth_drop_Suc)
    show ?thesis
    proof (cases "getConstantUpperBoundForIndex h f (dyn ! index)")
      case None
      with True lt show ?thesis by (simp add: elementAt_def)
    next
      case (Some b)
      with Cons.prems(2) dr
      have "\<exists>v \<in> set (drop (Suc index) dyn). getConstantUpperBoundForIndex h f v = None"
        by auto
      from Cons.IH [OF nx this] True lt Some show ?thesis by (simp add: elementAt_def)
    qed
  qed
qed


lemma verifiedOp_alloc:
  assumes "verifiedFunc f" and "findOp f a = Some A" and "isaAllocLike K A"
  shows "\<exists>t. getType A = Returned t \<and> length (getDynamicSizes A) = numDynamic (getShape t)"
proof -
  have "A \<in> set (walk f)" using assms(2) by (rule findOp_in_walk)
  with assms(1) have "verifiedOp A" by (simp add: verifiedFunc_def list_all_iff)
  moreover have "isAllocation A" using assms(3) by (cases K) (auto simp: isAllocation_def)
  ultimately show ?thesis by (cases "getType A") (auto simp: verifiedOp_def)
qed

lemma hoistAndReplace_unbounded:
  assumes vf: "verifiedFunc funcOp"
    and A: "findOp funcOp allocId = Some allocLikeOp"
    and K: "isaAllocLike K allocLikeOp"
    and ub: "hasUnboundedSize h funcOp allocLikeOp"
  shows "hoistAndReplace K h allocId funcOp = Returned funcOp"
proof -
  from verifiedOp_alloc [OF vf A K] obtain t where t: "getType allocLikeOp = Returned t"
    "length (getDynamicSizes allocLikeOp) = numDynamic (getShape t)" by auto
  from ub have ex: "\<exists>v \<in> set (drop 0 (getDynamicSizes allocLikeOp)).
      getConstantUpperBoundForIndex h funcOp v = None"
    by (simp add: hasUnboundedSize_def list_ex_iff)
  then have ne: "getDynamicSizes allocLikeOp \<noteq> []" by auto
  have "boundDimensions h funcOp (getShape t) (getDynamicSizes allocLikeOp) 0 [] [] =
      Returned None"
    using t(2) ex by (intro boundDimensions_unbounded) simp_all
  then have "hoistOneStaticallyBoundAllocationOp K h funcOp allocLikeOp = Returned None"
    using t(1) ne
    by (simp add: hoistOneStaticallyBoundAllocationOp_def hoistOneStaticallyBoundAllocation_def)
  then show ?thesis using A by (simp add: hoistAndReplace_def)
qed

lemma collectHoistable_members:
  "collectHoistable K f ops = Returned cs \<Longrightarrow> c \<in> set cs \<Longrightarrow>
   \<exists>op \<in> set ops. opId op = c \<and> isaAllocLike K op"
proof (induction ops arbitrary: cs)
  case Nil
  then show ?case by simp
next
  case (Cons op ops)
  show ?case
  proof (cases "isaAllocLike K op")
    case False
    with Cons show ?thesis by auto
  next
    case True
    with Cons.prems(1) obtain e where e: "frontBlock f = Returned e"
      by (cases "frontBlock f") auto
    show ?thesis
    proof (cases "getBlock f (opId op) \<noteq> Some (blockId e) \<and> (getDynamicSizes op = []
        \<or> list_all isUseReplaceableWithSubview (getUses f op))")
      case False
      with Cons True e show ?thesis by (auto split: if_splits)
    next
      case yes: True
      with Cons.prems(1) True e obtain cs' where cs': "collectHoistable K f ops = Returned cs'"
        "cs = opId op # cs'"
        by (cases "collectHoistable K f ops") (auto split: if_splits)
      with Cons.IH [OF cs'(1)] Cons.prems(2) True show ?thesis by auto
    qed
  qed
qed

lemma findOp_member:
  assumes "distinct (map opId (walk f))" and "op \<in> set (walk f)"
  shows "findOp f (opId op) = Some op"
proof -
  from assms(2) obtain y where y: "findOp f (opId op) = Some y"
    by (cases "findOp f (opId op)") (auto simp: findOp_def find_None_iff)
  from findOp_in_walk [OF y] findOp_opId [OF y] distinct_ids_eq [OF assms(1) _ assms(2)]
  have "y = op" by auto
  with y show ?thesis by simp
qed

lemma hoistLoop_unbounded:
  assumes "\<And>c. c \<in> set cs \<Longrightarrow> hoistAndReplace K h c f = Returned f"
  shows "hoistLoop K h cs f = Returned f"
  using assms by (induction cs) simp_all

text \<open>
  C5. In a verified function, take an allocation one of whose dynamic sizes has no
  constant upper bound. The step of the hoisting loop for it returns the function as it
  was: the loop over the dimensions leaves with \<open>std::nullopt\<close> before anything is
  created. If every collected allocation of the function is of this kind, the whole
  operation returns success, the function as its result, and the function unchanged. And
  whenever the operation returns, on any function, it returns success: it has no failing
  exit.
\<close>

theorem hoist_unbounded_untouched:
  assumes vf: "verifiedFunc funcOp"
    and A: "findOp funcOp allocId = Some allocLikeOp"
    and K: "isaAllocLike K allocLikeOp"
    and ub: "hasUnboundedSize h funcOp allocLikeOp"
  shows "hoistAndReplace K h allocId funcOp = Returned funcOp
    \<and> (\<forall>allocLikeOps.
          collectHoistable MemrefAllocOp funcOp (walk funcOp) = Returned allocLikeOps
          \<and> list_all (unboundedCandidate h funcOp) allocLikeOps
          \<longrightarrow> HoistStaticAllocOp_applyToOne h funcOp =
                Returned (DiagSuccess, [opId funcOp], funcOp))
    \<and> (\<forall>f d r f'. HoistStaticAllocOp_applyToOne h f = Returned (d, r, f')
          \<longrightarrow> d = DiagSuccess \<and> r = [opId f])"
proof (intro conjI allI impI)
  show "hoistAndReplace K h allocId funcOp = Returned funcOp"
    using vf A K ub by (rule hoistAndReplace_unbounded)
next
  fix allocLikeOps
  assume c: "collectHoistable MemrefAllocOp funcOp (walk funcOp) = Returned allocLikeOps
    \<and> list_all (unboundedCandidate h funcOp) allocLikeOps"
  have "hoistAndReplace MemrefAllocOp h c funcOp = Returned funcOp"
    if "c \<in> set allocLikeOps" for c
  proof -
    from collectHoistable_members [OF c [THEN conjunct1] that]
    obtain op where op: "op \<in> set (walk funcOp)" "opId op = c" "isaAllocLike MemrefAllocOp op"
      by auto
    have f: "findOp funcOp c = Some op"
      using findOp_member [OF _ op(1)] vf op(2) by (simp add: verifiedFunc_def)
    from c that have "unboundedCandidate h funcOp c" by (simp add: list_all_iff)
    with f have "hasUnboundedSize h funcOp op" by (simp add: unboundedCandidate_def)
    with vf f op(3) show ?thesis by (rule hoistAndReplace_unbounded)
  qed
  then have "hoistLoop MemrefAllocOp h allocLikeOps funcOp = Returned funcOp"
    by (rule hoistLoop_unbounded)
  with c show "HoistStaticAllocOp_applyToOne h funcOp =
      Returned (DiagSuccess, [opId funcOp], funcOp)"
    by (simp add: HoistStaticAllocOp_applyToOne_def hoistStaticallyBoundAllocationsInFunc_def)
next
  fix f d r f'
  assume "HoistStaticAllocOp_applyToOne h f = Returned (d, r, f')"
  then show "d = DiagSuccess" and "r = [opId f]"
    by (auto simp: HoistStaticAllocOp_applyToOne_def split: outcome.splits)
qed

theorem hoist_unbounded_untouched_witness:
  "verifiedFunc dynamicAllocFunc
   \<and> findOp dynamicAllocFunc 2 = Some dynamicAllocOp
   \<and> isaAllocLike MemrefAllocOp dynamicAllocOp
   \<and> hasUnboundedSize restingHost dynamicAllocFunc dynamicAllocOp
   \<and> hoistAndReplace MemrefAllocOp restingHost 2 dynamicAllocFunc = Returned dynamicAllocFunc
   \<and> collectHoistable MemrefAllocOp dynamicAllocFunc (walk dynamicAllocFunc) = Returned [2]
   \<and> list_all (unboundedCandidate restingHost dynamicAllocFunc) [2]
   \<and> HoistStaticAllocOp_applyToOne restingHost dynamicAllocFunc =
       Returned (DiagSuccess, [opId dynamicAllocFunc], dynamicAllocFunc)"
proof -
  have 0: "verifiedFunc dynamicAllocFunc" by code_simp
  have 1: "findOp dynamicAllocFunc 2 = Some dynamicAllocOp" by code_simp
  have 2: "isaAllocLike MemrefAllocOp dynamicAllocOp" by code_simp
  have 3: "hasUnboundedSize restingHost dynamicAllocFunc dynamicAllocOp" by code_simp
  have 4: "collectHoistable MemrefAllocOp dynamicAllocFunc (walk dynamicAllocFunc) =
      Returned [2]" by code_simp
  have 5: "list_all (unboundedCandidate restingHost dynamicAllocFunc) [2]" by code_simp
  from hoist_unbounded_untouched [OF 0 1 2 3] 4 5
  have "hoistAndReplace MemrefAllocOp restingHost 2 dynamicAllocFunc = Returned dynamicAllocFunc"
    and "HoistStaticAllocOp_applyToOne restingHost dynamicAllocFunc =
       Returned (DiagSuccess, [opId dynamicAllocFunc], dynamicAllocFunc)"
    by blast+
  with 0 1 2 3 4 5 show ?thesis by (intro conjI)
qed

subsection \<open>Allocations with bounded dynamic sizes\<close>

lemma staticPart_replicate [simp]:
  "map staticPart (replicate k (AttrOFR c)) = replicate k c"
  "concat (map dynamicPart (replicate k (AttrOFR c))) = []"
  by (induction k) simp_all

lemma createSubViewOp_facts [simp]:
  "opId (createSubViewOp h i src srcTy offs szs strs) = i"
  "opRegions (createSubViewOp h i src srcTy offs szs strs) = []"
  "opOperands (createSubViewOp h i src srcTy offs szs strs) =
     src # concat (map dynamicPart offs) @ concat (map dynamicPart szs)
       @ concat (map dynamicPart strs)"
  by (simp_all add: createSubViewOp_def)







text \<open>
  The whole operation on that function, with a host that bounds \<open>n\<close> by 16: a buffer of
  16 by 4 elements is allocated first in the function and freed before the return, and
  the loop body takes the \<open>n\<close> by 4 sub-view of it that the store now uses.
\<close>

lemma hoist_bounded_example:
  "HoistStaticAllocOp_applyToOne boundingHost dynamicAllocFunc =
   Returned (DiagSuccess, [0],
     Operation 0 FuncOp [] []
       [[Block 0 [OtherType 0]
          [Operation 7 (AllocOp None 0) [] [MemRefType (MemRef [16, 4] 0 0 0)] [],
           Operation 1 ScfForOp [] []
             [[Block 1 [OtherType 0]
                 [Operation 8 (SubViewOp [0, 0] [kDynamic, 4] [1, 1])
                    [OpResult 7 0, BlockArgument 0 0]
                    [MemRefType (MemRef [kDynamic, 4] 0 1 0)] [],
                  Operation 3 StoreOp [BlockArgument 1 0, OpResult 8 0] [] [],
                  Operation 5 (OtherOp 0 [IsTerminator]) [] [] []]]],
           Operation 9 DeallocOp [OpResult 7 0] [] [],
           Operation 6 ReturnOp [] [] []]]])"
  by code_simp

end
